theory Spec2Isabelle
  imports Complex_Main "HOL-Library.Monad_Syntax" "HOL-Library.Sublist" "HOL-Library.Log_Nat"
begin

section \<open>JavaScript values and string operations\<close>

text \<open>
  The analysis engine of \<^verbatim>\<open>server/figmaApi.ts\<close> works on untyped JSON. The embedding
  gives every property the type the Figma file format gives it and makes it optional:
  \<open>None\<close> is JavaScript's \<^verbatim>\<open>undefined\<close> (the property is absent). Strings are lists
  of 8-bit characters; \<^verbatim>\<open>toLowerCase\<close> maps the ASCII capitals and \<^verbatim>\<open>length\<close> counts
  characters.

  A \<^verbatim>\<open>TypeError\<close> (the source calls \<^verbatim>\<open>node.name.toLowerCase()\<close> on a node without a
  name) is the value \<open>None\<close> of the option monad: every function that can throw returns
  an option, and an exception thrown in a callback of \<^verbatim>\<open>some\<close>, \<^verbatim>\<open>find\<close>,
  \<^verbatim>\<open>filter\<close> or \<^verbatim>\<open>map\<close> leaves the loop at once.
\<close>

text \<open>
  A JavaScript number is a finite IEEE 754 double, held as the rational it denotes.
  \<open>fl\<close> rounds a rational to the nearest double (53 significant bits, ties to the even
  significand); a decimal literal of the source and the exact result of each product,
  quotient and difference go through it. The exponent range is not bounded: overflow to
  infinity and the subnormal numbers are outside the model, and so is \<^verbatim>\<open>NaN\<close>, which
  the operations of the source produce from \<^verbatim>\<open>undefined\<close> only (then a comparison is
  false, see \<open>ltNum\<close>).
\<close>

type_synonym number = rat

definition pow2 :: "int \<Rightarrow> rat" where
  "pow2 e = (if 0 \<le> e then 2 ^ nat e else 1 / 2 ^ nat (- e))"

text \<open>The integer \<open>e\<close> with \<open>2 ^ e \<le> q < 2 ^ (e + 1)\<close>, for a positive \<open>q\<close>.\<close>

definition ilog2 :: "rat \<Rightarrow> int" where
  "ilog2 q =
     (if 1 \<le> q then bitlen \<lfloor>q\<rfloor> - 1 else - bitlen (\<lceil>1 / q\<rceil> - 1))"

definition roundHalfEven :: "rat \<Rightarrow> int" where
  "roundHalfEven q =
     (let f = \<lfloor>q\<rfloor>; d = q - of_int f
      in if d < 1 / 2 then f else if 1 / 2 < d then f + 1 else if even f then f else f + 1)"

definition fl :: "rat \<Rightarrow> number" where
  "fl q =
     (if q = 0 then 0
      else let e = ilog2 \<bar>q\<bar> - 52 in of_int (roundHalfEven (q / pow2 e)) * pow2 e)"

definition fmul :: "number \<Rightarrow> number \<Rightarrow> number" where
  "fmul v w = fl (v * w)"

definition fdiv :: "number \<Rightarrow> number \<Rightarrow> number" where
  "fdiv v w = fl (v / w)"

definition fsub :: "number \<Rightarrow> number \<Rightarrow> number" where
  "fsub v w = fl (v - w)"

text \<open>\<^verbatim>\<open>Math.round\<close>: the nearest integer, a tie goes towards plus infinity.\<close>

definition Math_round :: "number \<Rightarrow> int" where
  "Math_round v = \<lfloor>v + 1 / 2\<rfloor>"

definition lowerChar :: "char \<Rightarrow> char" where
  "lowerChar c =
     (case map_of (zip ''ABCDEFGHIJKLMNOPQRSTUVWXYZ'' ''abcdefghijklmnopqrstuvwxyz'') c of
        Some d \<Rightarrow> d
      | None \<Rightarrow> c)"

definition toLowerCase :: "string \<Rightarrow> string" where
  "toLowerCase s = map lowerChar s"

fun startsWith :: "string \<Rightarrow> string \<Rightarrow> bool" where
  "startsWith s [] = True"
| "startsWith [] (p # ps) = False"
| "startsWith (c # cs) (p # ps) = (c = p \<and> startsWith cs ps)"

text \<open>\<^verbatim>\<open>s.includes(p)\<close>: \<open>p\<close> occurs in \<open>s\<close> as a contiguous substring.\<close>

fun str_includes :: "string \<Rightarrow> string \<Rightarrow> bool" where
  "str_includes [] p = (p = [])"
| "str_includes (c # cs) p = (startsWith (c # cs) p \<or> str_includes cs p)"

text \<open>\<^verbatim>\<open>s.trim()\<close>, for the white space of ASCII.\<close>

definition isSpace :: "char \<Rightarrow> bool" where
  "isSpace c = (c \<in> set [CHR '' '', CHR 0x09, CHR 0x0A, CHR 0x0B, CHR 0x0C, CHR 0x0D])"

definition trim :: "string \<Rightarrow> string" where
  "trim s = rev (dropWhile isSpace (rev (dropWhile isSpace s)))"

text \<open>\<^verbatim>\<open>s.replace(/option|item/i, '')\<close>: the leftmost match is removed, once.\<close>

fun removeOptionItem :: "string \<Rightarrow> string" where
  "removeOptionItem [] = []"
| "removeOptionItem (c # cs) =
     (if startsWith (toLowerCase (c # cs)) ''option'' then drop 6 (c # cs)
      else if startsWith (toLowerCase (c # cs)) ''item'' then drop 4 (c # cs)
      else c # removeOptionItem cs)"

text \<open>The array methods with a callback that may throw.\<close>

fun someM :: "('a \<Rightarrow> bool option) \<Rightarrow> 'a list \<Rightarrow> bool option" where
  "someM p [] = Some False"
| "someM p (x # xs) =
     (case p x of None \<Rightarrow> None | Some found \<Rightarrow> if found then Some True else someM p xs)"

fun findM :: "('a \<Rightarrow> bool option) \<Rightarrow> 'a list \<Rightarrow> 'a option option" where
  "findM p [] = Some None"
| "findM p (x # xs) =
     (case p x of None \<Rightarrow> None | Some found \<Rightarrow> if found then Some (Some x) else findM p xs)"

fun filterM :: "('a \<Rightarrow> bool option) \<Rightarrow> 'a list \<Rightarrow> 'a list option" where
  "filterM p [] = Some []"
| "filterM p (x # xs) =
     (case p x of
        None \<Rightarrow> None
      | Some keep \<Rightarrow>
          (case filterM p xs of
             None \<Rightarrow> None
           | Some ys \<Rightarrow> Some (if keep then x # ys else ys)))"

fun mapM :: "('a \<Rightarrow> 'b option) \<Rightarrow> 'a list \<Rightarrow> 'b list option" where
  "mapM f [] = Some []"
| "mapM f (x # xs) =
     (case f x of
        None \<Rightarrow> None
      | Some y \<Rightarrow> (case mapM f xs of None \<Rightarrow> None | Some ys \<Rightarrow> Some (y # ys)))"

text \<open>
  \<^verbatim>\<open>xs.sort(cmp)\<close> is a stable sort: \<open>a\<close> stays before \<open>b\<close> unless \<open>cmp a b\<close> is
  positive.
\<close>

fun insortBy :: "('a \<Rightarrow> 'a \<Rightarrow> number) \<Rightarrow> 'a \<Rightarrow> 'a list \<Rightarrow> 'a list" where
  "insortBy cmp v [] = [v]"
| "insortBy cmp v (w # ws) = (if cmp v w \<le> 0 then v # w # ws else w # insortBy cmp v ws)"

definition sortBy :: "('a \<Rightarrow> 'a \<Rightarrow> number) \<Rightarrow> 'a list \<Rightarrow> 'a list" where
  "sortBy cmp xs = foldr (insortBy cmp) xs []"

text \<open>The values a property bag holds.\<close>

datatype jsval = JUndefined | JNull | JBool bool | JStr string | JArr "jsval list"

definition ofChars :: "string option \<Rightarrow> jsval" where
  "ofChars v = (case v of None \<Rightarrow> JUndefined | Some s \<Rightarrow> JStr s)"

fun truthy :: "jsval \<Rightarrow> bool" where
  "truthy JUndefined = False"
| "truthy JNull = False"
| "truthy (JBool v) = v"
| "truthy (JStr s) = (s \<noteq> [])"
| "truthy (JArr vs) = True"

section \<open>The design tree\<close>

record rgba =
  colorR :: number
  colorG :: number
  colorB :: number
  colorA :: "number option"

record paint =
  paintVisible :: "bool option"
  paintOpacity :: "number option"
  paintColor :: "rgba option"

record offset =
  offsetX :: "number option"
  offsetY :: "number option"

record effect =
  effectType :: "string option"
  effectVisible :: "bool option"
  effectOffset :: "offset option"
  effectRadius :: "number option"
  effectColor :: "rgba option"

record boundingBox =
  boxWidth :: "number option"
  boxHeight :: "number option"

record typeStyle =
  fontSize :: "number option"
  fontWeight :: "number option"
  lineHeight :: "number option"
  letterSpacing :: "number option"
  textAlignHorizontal :: "string option"

text \<open>
  The properties of one node that the engine reads, with the names of the source;
  \<open>nodeId\<close>, \<open>nodeName\<close>, \<open>nodeType\<close>, \<open>nodeOpacity\<close>, \<open>nodeStyle\<close>, \<open>nodeX\<close>,
  \<open>nodeY\<close>, \<open>nodeWidth\<close> and \<open>nodeHeight\<close> are \<^verbatim>\<open>id\<close>, \<^verbatim>\<open>name\<close>, \<^verbatim>\<open>type\<close>,
  \<^verbatim>\<open>opacity\<close>, \<^verbatim>\<open>style\<close>, \<^verbatim>\<open>x\<close>, \<^verbatim>\<open>y\<close>, \<^verbatim>\<open>width\<close> and \<^verbatim>\<open>height\<close>.
\<close>

record attrs =
  nodeId :: "string option"
  nodeName :: "string option"
  nodeType :: "string option"
  componentId :: "string option"
  fills :: "paint list option"
  strokes :: "paint list option"
  effects :: "effect list option"
  absoluteBoundingBox :: "boundingBox option"
  cornerRadius :: "number option"
  nodeOpacity :: "number option"
  characters :: "string option"
  nodeStyle :: "typeStyle option"
  nodeX :: "number option"
  nodeY :: "number option"
  nodeWidth :: "number option"
  nodeHeight :: "number option"
  paddingLeft :: "number option"
  paddingRight :: "number option"
  paddingTop :: "number option"
  paddingBottom :: "number option"

datatype node = Node (attrs: attrs) (children: "node list option")

abbreviation kind :: "node \<Rightarrow> string option" where
  "kind n \<equiv> nodeType (attrs n)"

text \<open>\<^verbatim>\<open>node.name.toLowerCase()\<close>: a \<^verbatim>\<open>TypeError\<close> when the node has no name.\<close>

definition nameLower :: "node \<Rightarrow> string option" where
  "nameLower n = map_option toLowerCase (nodeName (attrs n))"

text \<open>The truth value of an optional number: \<^verbatim>\<open>undefined\<close> and \<open>0\<close> are falsy.\<close>

definition truthyNum :: "number option \<Rightarrow> bool" where
  "truthyNum v = (case v of None \<Rightarrow> False | Some q \<Rightarrow> q \<noteq> 0)"

text \<open>A comparison with \<^verbatim>\<open>undefined\<close> is false.\<close>

definition ltNum :: "number option \<Rightarrow> number option \<Rightarrow> bool" where
  "ltNum v w = (case (v, w) of (Some p, Some q) \<Rightarrow> p < q | _ \<Rightarrow> False)"

definition orZero :: "number option \<Rightarrow> number" where
  "orZero v = (case v of None \<Rightarrow> 0 | Some q \<Rightarrow> q)"

section \<open>The catalogs\<close>

definition BUTTON_VARIANTS :: "(string \<times> string) list" where
  "BUTTON_VARIANTS =
     [(''primary'', ''raised''), (''secondary'', ''stroked''), (''text'', ''basic''),
      (''icon'', ''icon''), (''flat'', ''flat'')]"

definition INPUT_APPEARANCES :: "(string \<times> string) list" where
  "INPUT_APPEARANCES =
     [(''outline'', ''outline''), (''standard'', ''standard''), (''fill'', ''fill'')]"

definition COMPONENT_TYPE_IDS :: "(string \<times> string list) list" where
  "COMPONENT_TYPE_IDS =
     [(''Button'', [''button-primary'', ''button-secondary'', ''button-flat'', ''button-icon'']),
      (''Input'', [''input-standard'', ''input-outline'', ''input-fill'', ''text-field'']),
      (''Card'', [''card-standard'', ''card-elevated'', ''card-outlined'']),
      (''Checkbox'', [''checkbox-standard'', ''checkbox-indeterminate'']),
      (''Radio'', [''radio-button'', ''radio-option'']),
      (''Select'', [''select-standard'', ''dropdown'', ''combobox'']),
      (''DatePicker'', [''date-picker'', ''calendar-input'']),
      (''Tabs'', [''tabs-standard'', ''tab-bar'']),
      (''Table'', [''table-standard'', ''data-table''])]"

text \<open>
  The loops over \<^verbatim>\<open>Object.entries\<close> of a catalog: the first entry, in the order the
  catalog is written, that satisfies the test decides.
\<close>

fun firstEntry :: "('v \<Rightarrow> bool) \<Rightarrow> (string \<times> 'v) list \<Rightarrow> (string \<times> 'v) option" where
  "firstEntry p [] = None"
| "firstEntry p (e # es) = (if p (snd e) then Some e else firstEntry p es)"

fun firstKey :: "(string \<Rightarrow> bool) \<Rightarrow> (string \<times> 'v) list \<Rightarrow> 'v option" where
  "firstKey p [] = None"
| "firstKey p (e # es) = (if p (fst e) then Some (snd e) else firstKey p es)"

section \<open>Candidates and type resolution\<close>

definition isComponentCandidate :: "node \<Rightarrow> bool option" where
  "isComponentCandidate n =
     (if kind n = Some ''COMPONENT'' \<or> kind n = Some ''INSTANCE'' then Some True
      else if kind n = Some ''FRAME'' then
        do {
          nl \<leftarrow> nameLower n;
          Some (str_includes nl ''button'' \<or> str_includes nl ''input'' \<or> str_includes nl ''field'' \<or>
                str_includes nl ''card'' \<or> str_includes nl ''checkbox'' \<or> str_includes nl ''select'' \<or>
                str_includes nl ''date'' \<or> str_includes nl ''table'' \<or> str_includes nl ''tab'' \<or>
                str_includes nl ''carousel'')
        }
      else Some False)"

definition hasButtonLikeStructure :: "node \<Rightarrow> bool option" where
  "hasButtonLikeStructure n =
     (let hasButtonShape = ltNum (Some 0) (cornerRadius (attrs n)) in
      do {
        nl \<leftarrow> nameLower n;
        let isClickable = (str_includes nl ''click'' \<or> str_includes nl ''action'');
        let hasLimitedSize =
              (case absoluteBoundingBox (attrs n) of
                 None \<Rightarrow> False
               | Some box \<Rightarrow> ltNum (boxWidth box) (Some 300) \<and> ltNum (boxHeight box) (Some 100));
        Some (hasButtonShape \<and> (isClickable \<or> hasLimitedSize))
      })"

definition hasInputFieldStructure :: "node \<Rightarrow> bool option" where
  "hasInputFieldStructure n =
     (case children n of
        None \<Rightarrow> Some False
      | Some cs \<Rightarrow>
          do {
            hasLabel \<leftarrow> someM (\<lambda>child.
              if kind child = Some ''TEXT'' then
                do {
                  nl \<leftarrow> nameLower child;
                  Some (str_includes nl ''label'' \<or>
                        (case characters (attrs child) of
                           None \<Rightarrow> False
                         | Some s \<Rightarrow> length s < 30))
                }
              else Some False) cs;
            hasInputArea \<leftarrow> someM (\<lambda>child.
              if kind child = Some ''RECTANGLE'' then Some True
              else if kind child = Some ''FRAME'' then
                do { nl \<leftarrow> nameLower child; Some (str_includes nl ''input'') }
              else Some False) cs;
            Some (hasLabel \<and> hasInputArea)
          })"

definition visibleDropShadow :: "effect \<Rightarrow> bool" where
  "visibleDropShadow e = (effectType e = Some ''DROP_SHADOW'' \<and> effectVisible e \<noteq> Some False)"

definition hasCardStructure :: "node \<Rightarrow> bool" where
  "hasCardStructure n =
     (if kind n \<noteq> Some ''FRAME'' \<and> kind n \<noteq> Some ''GROUP'' then False
      else
        let hasElevation =
              (case effects (attrs n) of None \<Rightarrow> False | Some es \<Rightarrow> list_ex visibleDropShadow es);
            hasCardContent =
              (case children n of
                 None \<Rightarrow> False
               | Some cs \<Rightarrow> length cs > 1 \<and> list_ex (\<lambda>child. kind child = Some ''TEXT'') cs)
        in hasElevation \<and> hasCardContent)"

text \<open>
  The lookup of \<^verbatim>\<open>node.componentId\<close> in \<^verbatim>\<open>COMPONENT_TYPE_IDS\<close>; an absent or empty
  id is falsy and skips the loop.
\<close>

definition typeOfComponentId :: "node \<Rightarrow> string option" where
  "typeOfComponentId n =
     (case componentId (attrs n) of
        None \<Rightarrow> None
      | Some cid \<Rightarrow>
          if cid = [] then None
          else map_option fst (firstEntry (\<lambda>ids. cid \<in> set ids) COMPONENT_TYPE_IDS))"

text \<open>
  \<^verbatim>\<open>detectComponentType\<close> in its three parts: the check of the component id (above), the
  name patterns and the analysis of the structure. Each part returns at its first match.
\<close>

definition nameRule :: "string \<Rightarrow> string option" where
  "nameRule nl =
     (if str_includes nl ''button'' then Some ''Button''
      else if str_includes nl ''input'' \<or> str_includes nl ''field'' \<or>
              str_includes nl ''text field''
        then Some ''Input''
      else if str_includes nl ''card'' then Some ''Card''
      else if str_includes nl ''check'' \<or> str_includes nl ''checkbox'' then Some ''Checkbox''
      else if str_includes nl ''select'' \<or> str_includes nl ''dropdown'' \<or>
              str_includes nl ''combo''
        then Some ''Select''
      else if str_includes nl ''date'' \<or> str_includes nl ''calendar'' then Some ''DatePicker''
      else if str_includes nl ''tab'' \<and> \<not> str_includes nl ''table'' then Some ''Tabs''
      else if str_includes nl ''table'' \<or> str_includes nl ''data table'' then Some ''Table''
      else if str_includes nl ''carousel'' \<or> str_includes nl ''slider'' then Some ''Carousel''
      else None)"

definition structuralFallback :: "node \<Rightarrow> string option" where
  "structuralFallback n =
     do {
       buttonLike \<leftarrow> hasButtonLikeStructure n;
       if buttonLike then Some ''Button''
       else
         do {
           inputLike \<leftarrow> hasInputFieldStructure n;
           if inputLike then Some ''Input''
           else if hasCardStructure n then Some ''Card''
           else Some ''Custom''
         }
     }"

definition detectComponentType :: "node \<Rightarrow> string option" where
  "detectComponentType n =
     do {
       nl \<leftarrow> nameLower n;
       case typeOfComponentId n of
         Some t \<Rightarrow> Some t
       | None \<Rightarrow> (case nameRule nl of Some t \<Rightarrow> Some t | None \<Rightarrow> structuralFallback n)
     }"

section \<open>Property extraction\<close>

definition visiblePaint :: "paint \<Rightarrow> bool" where
  "visiblePaint p = (paintVisible p \<noteq> Some False)"

definition visibleOpaquePaint :: "paint \<Rightarrow> bool" where
  "visibleOpaquePaint p = (paintVisible p \<noteq> Some False \<and> ltNum (Some 0) (paintOpacity p))"

definition hasVisibleDropShadow :: "node \<Rightarrow> bool" where
  "hasVisibleDropShadow n =
     (case effects (attrs n) of None \<Rightarrow> False | Some es \<Rightarrow> list_ex visibleDropShadow es)"

definition determineButtonVariant :: "node \<Rightarrow> string option" where
  "determineButtonVariant n =
     (case (case componentId (attrs n) of
              None \<Rightarrow> None
            | Some cid \<Rightarrow>
                if cid = [] then None
                else firstKey (\<lambda>variant. str_includes cid variant) BUTTON_VARIANTS) of
        Some ids \<Rightarrow> Some ids
      | None \<Rightarrow>
          do {
            nl \<leftarrow> nameLower n;
            case firstKey (\<lambda>variant. str_includes nl variant) BUTTON_VARIANTS of
              Some v \<Rightarrow> Some v
            | None \<Rightarrow>
                if hasVisibleDropShadow n then Some ''raised''
                else
                  let hasFill =
                        (case fills (attrs n) of
                           None \<Rightarrow> False
                         | Some fs \<Rightarrow> list_ex visibleOpaquePaint fs);
                      hasStroke =
                        (case strokes (attrs n) of
                           None \<Rightarrow> False
                         | Some ss \<Rightarrow> list_ex visiblePaint ss)
                  in
                    if hasStroke \<and>
                       (\<not> hasFill \<or>
                        (case fills (attrs n) of
                           None \<Rightarrow> False
                         | Some fs \<Rightarrow> list_all (\<lambda>f. ltNum (paintOpacity f) (Some (fl (2 / 10)))) fs))
                    then Some ''stroked''
                    else if hasFill then Some ''flat''
                    else Some ''basic''
          })"

definition determineColorTheme :: "node \<Rightarrow> string option" where
  "determineColorTheme n =
     do {
       nl \<leftarrow> nameLower n;
       if str_includes nl ''primary'' then Some ''primary''
       else if str_includes nl ''accent'' \<or> str_includes nl ''secondary'' then Some ''accent''
       else if str_includes nl ''warn'' \<or> str_includes nl ''danger'' \<or> str_includes nl ''error''
         then Some ''warn''
       else
         (case (case fills (attrs n) of
                  None \<Rightarrow> None
                | Some fs \<Rightarrow> Option.bind (find visibleOpaquePaint fs) paintColor) of
            None \<Rightarrow> Some ''primary''
          | Some c \<Rightarrow>
              if colorR c > fl (7 / 10) \<and> colorG c < fl (3 / 10) \<and> colorB c < fl (3 / 10)
                then Some ''warn''
              else if colorR c < fl (3 / 10) \<and> colorG c < fl (5 / 10) \<and> colorB c > fl (7 / 10)
                then Some ''primary''
              else if colorR c > fl (7 / 10) \<and> colorG c > fl (5 / 10) \<and> colorB c < fl (3 / 10)
                then Some ''accent''
              else Some ''primary'')
     }"

definition saturation :: "rgba \<Rightarrow> number" where
  "saturation c =
     (let mx = max (colorR c) (max (colorG c) (colorB c));
          mn = min (colorR c) (min (colorG c) (colorB c))
      in if mx = 0 then 0 else fdiv (fsub mx mn) mx)"

definition isNodeDisabled :: "node \<Rightarrow> bool option" where
  "isNodeDisabled n =
     do {
       nl \<leftarrow> nameLower n;
       if str_includes nl ''disabled'' then Some True
       else if truthyNum (nodeOpacity (attrs n)) \<and> ltNum (nodeOpacity (attrs n)) (Some (fl (5 / 10)))
         then Some True
       else
         (case (case fills (attrs n) of
                  None \<Rightarrow> None
                | Some fs \<Rightarrow> Option.bind (find visiblePaint fs) paintColor) of
            None \<Rightarrow> Some False
          | Some c \<Rightarrow> if saturation c < fl (1 / 10) then Some True else Some False)
     }"

definition hasChildIcon :: "node \<Rightarrow> bool option" where
  "hasChildIcon n =
     (case children n of
        None \<Rightarrow> Some False
      | Some cs \<Rightarrow>
          someM (\<lambda>child.
            if kind child = Some ''VECTOR'' then Some True
            else
              do {
                nl \<leftarrow> nameLower child;
                Some (str_includes nl ''icon'' \<or>
                      (truthyNum (nodeWidth (attrs child)) \<and> truthyNum (nodeHeight (attrs child)) \<and>
                       nodeWidth (attrs child) = nodeHeight (attrs child) \<and>
                       ltNum (nodeWidth (attrs child)) (Some 24)))
              }) cs)"

definition determineInputAppearance :: "node \<Rightarrow> string option" where
  "determineInputAppearance n =
     (case (case componentId (attrs n) of
              None \<Rightarrow> None
            | Some cid \<Rightarrow>
                if cid = [] then None
                else firstKey (\<lambda>appearance. str_includes cid appearance) INPUT_APPEARANCES) of
        Some v \<Rightarrow> Some v
      | None \<Rightarrow>
          do {
            nl \<leftarrow> nameLower n;
            case firstKey (\<lambda>appearance. str_includes nl appearance) INPUT_APPEARANCES of
              Some v \<Rightarrow> Some v
            | None \<Rightarrow>
                if (case strokes (attrs n) of None \<Rightarrow> False | Some ss \<Rightarrow> list_ex visiblePaint ss)
                  then Some ''outline''
                else if (case fills (attrs n) of
                           None \<Rightarrow> False
                         | Some fs \<Rightarrow> list_ex visibleOpaquePaint fs)
                  then Some ''fill''
                else Some ''standard''
          })"

text \<open>The comparators of the two sorts in \<^verbatim>\<open>extractTextContent\<close>.\<close>

definition fontSizeOf :: "node \<Rightarrow> number" where
  "fontSizeOf t = orZero (Option.bind (nodeStyle (attrs t)) fontSize)"

definition fontWeightOf :: "node \<Rightarrow> number" where
  "fontWeightOf t = orZero (Option.bind (nodeStyle (attrs t)) fontWeight)"

definition byFont :: "node \<Rightarrow> node \<Rightarrow> number" where
  "byFont p q =
     (if fontSizeOf p \<noteq> fontSizeOf q then fsub (fontSizeOf q) (fontSizeOf p)
      else fsub (fontWeightOf q) (fontWeightOf p))"

definition textLength :: "node \<Rightarrow> number" where
  "textLength t = (case characters (attrs t) of None \<Rightarrow> 0 | Some s \<Rightarrow> of_nat (length s))"

definition byTextLength :: "node \<Rightarrow> node \<Rightarrow> number" where
  "byTextLength p q = fsub (textLength q) (textLength p)"

definition isText :: "node \<Rightarrow> bool" where
  "isText child = (kind child = Some ''TEXT'')"

definition firstCharacters :: "node list \<Rightarrow> jsval option" where
  "firstCharacters ts = (case ts of [] \<Rightarrow> None | t # _ \<Rightarrow> Some (ofChars (characters (attrs t))))"

definition extractTextContent :: "node \<Rightarrow> string \<Rightarrow> jsval option" where
  "extractTextContent n purpose =
     (case children n of
        None \<Rightarrow> Some JNull
      | Some cs \<Rightarrow>
          do {
            textByName \<leftarrow> findM (\<lambda>child.
              if kind child = Some ''TEXT'' then
                do { nl \<leftarrow> nameLower child; Some (str_includes nl (toLowerCase purpose)) }
              else Some False) cs;
            case (case textByName of
                    None \<Rightarrow> None
                  | Some t \<Rightarrow>
                      (case characters (attrs t) of
                         None \<Rightarrow> None
                       | Some s \<Rightarrow> if s = [] then None else Some s)) of
              Some s \<Rightarrow> Some (JStr s)
            | None \<Rightarrow>
                (case (if purpose = ''title'' \<or> purpose = ''heading''
                       then firstCharacters (sortBy byFont (filter isText cs)) else None) of
                   Some v \<Rightarrow> Some v
                 | None \<Rightarrow>
                     (case (if purpose = ''label''
                            then firstCharacters (filter (\<lambda>child. isText child \<and>
                                   (ltNum (nodeY (attrs child))
                                      (map_option (\<lambda>h. fmul h (fl (3 / 10))) (nodeHeight (attrs n))) \<or>
                                    ltNum (nodeX (attrs child))
                                      (map_option (\<lambda>w. fmul w (fl (2 / 10))) (nodeWidth (attrs n))))) cs)
                            else None) of
                        Some v \<Rightarrow> Some v
                      | None \<Rightarrow>
                          (case (if purpose = ''content''
                                 then firstCharacters (sortBy byTextLength (filter isText cs))
                                 else None) of
                             Some v \<Rightarrow> Some v
                           | None \<Rightarrow> Some JNull)))
          })"

definition isInputRequired :: "node \<Rightarrow> bool option" where
  "isInputRequired n =
     do {
       nl \<leftarrow> nameLower n;
       if str_includes nl ''required'' then Some True
       else
         (case children n of
            None \<Rightarrow> Some False
          | Some cs \<Rightarrow>
              someM (\<lambda>child.
                if kind child = Some ''TEXT'' \<and>
                   (case characters (attrs child) of
                      None \<Rightarrow> False
                    | Some s \<Rightarrow> str_includes s ''*'')
                then Some True
                else
                  do {
                    cl \<leftarrow> nameLower child;
                    Some (str_includes cl ''required'' \<or> str_includes cl ''asterisk'')
                  }) cs)
     }"

definition hasActionButtons :: "node \<Rightarrow> bool option" where
  "hasActionButtons n =
     (case children n of
        None \<Rightarrow> Some False
      | Some cs \<Rightarrow>
          do {
            actionsFrame \<leftarrow> findM (\<lambda>child.
              if kind child = Some ''FRAME'' \<or> kind child = Some ''GROUP'' then
                do {
                  cl \<leftarrow> nameLower child;
                  Some (str_includes cl ''action'' \<or> str_includes cl ''button'')
                }
              else Some False) cs;
            if actionsFrame \<noteq> None then Some True
            else
              someM (\<lambda>child.
                if kind child = Some ''INSTANCE'' then
                  if (case componentId (attrs child) of
                        None \<Rightarrow> False
                      | Some cid \<Rightarrow> str_includes cid ''button'')
                  then Some True
                  else do { cl \<leftarrow> nameLower child; Some (str_includes cl ''button'') }
                else Some False) cs
          })"

definition optionText :: "node \<Rightarrow> jsval option" where
  "optionText opt =
     (if truthy (ofChars (characters (attrs opt))) then Some (ofChars (characters (attrs opt)))
      else
        (case (case children opt of None \<Rightarrow> None | Some gs \<Rightarrow> find isText gs) of
           Some textChild \<Rightarrow> Some (ofChars (characters (attrs textChild)))
         | None \<Rightarrow> map_option (\<lambda>nm. JStr (trim (removeOptionItem nm))) (nodeName (attrs opt))))"

definition extractSelectOptions :: "node \<Rightarrow> jsval option" where
  "extractSelectOptions n =
     (case children n of
        None \<Rightarrow> Some JNull
      | Some cs \<Rightarrow>
          do {
            optionNodes \<leftarrow> filterM (\<lambda>child.
              do {
                cl \<leftarrow> nameLower child;
                Some (str_includes cl ''option'' \<or> str_includes cl ''item'')
              }) cs;
            if optionNodes \<noteq> [] then map_option JArr (mapM optionText optionNodes)
            else Some JNull
          })"

text \<open>\<^verbatim>\<open>a || b\<close> on values: \<open>b\<close> is evaluated when \<open>a\<close> is falsy.\<close>

definition orElse :: "jsval \<Rightarrow> jsval option \<Rightarrow> jsval option" where
  "orElse v alt = (if truthy v then Some v else alt)"

text \<open>
  The property bag is the list of its keys with their values, in insertion order. A key
  that is assigned is in the list, whatever its value.
\<close>

definition extractComponentProperties :: "node \<Rightarrow> string \<Rightarrow> (string \<times> jsval) list option" where
  "extractComponentProperties n componentType =
     (if componentType = ''Button'' then
        do {
          variant \<leftarrow> determineButtonVariant n;
          color \<leftarrow> determineColorTheme n;
          disabled \<leftarrow> isNodeDisabled n;
          icon \<leftarrow> hasChildIcon n;
          Some [(''variant'', JStr variant), (''color'', JStr color),
                (''disabled'', JBool disabled), (''icon'', JBool icon)]
        }
      else if componentType = ''Input'' then
        do {
          appearance \<leftarrow> determineInputAppearance n;
          label \<leftarrow> extractTextContent n ''label'';
          placeholder \<leftarrow> extractTextContent n ''placeholder'';
          placeholder' \<leftarrow> orElse placeholder (extractTextContent n ''hint'');
          required \<leftarrow> isInputRequired n;
          Some [(''appearance'', JStr appearance), (''label'', label),
                (''placeholder'', placeholder'), (''required'', JBool required)]
        }
      else if componentType = ''Card'' then
        do {
          title \<leftarrow> extractTextContent n ''title'';
          subtitle \<leftarrow> extractTextContent n ''subtitle'';
          content \<leftarrow> extractTextContent n ''content'';
          actions \<leftarrow> hasActionButtons n;
          Some ([(''title'', title)] @
                (if truthy subtitle then [(''subtitle'', subtitle)] else []) @
                [(''content'', content), (''actions'', JBool actions)])
        }
      else if componentType = ''DatePicker'' then
        do {
          label \<leftarrow> extractTextContent n ''label'';
          label' \<leftarrow> orElse label (Some (JStr ''Choose a date''));
          appearance \<leftarrow> determineInputAppearance n;
          Some [(''label'', label'), (''appearance'', JStr appearance)]
        }
      else if componentType = ''Select'' then
        do {
          label \<leftarrow> extractTextContent n ''label'';
          label' \<leftarrow> orElse label (Some (JStr ''Select an option''));
          appearance \<leftarrow> determineInputAppearance n;
          opts \<leftarrow> extractSelectOptions n;
          Some [(''label'', label'), (''appearance'', JStr appearance), (''options'', opts)]
        }
      else Some [])"

section \<open>Style extraction\<close>

record rgb255 =
  rgbR :: int
  rgbG :: int
  rgbB :: int

record shadowColor =
  shadowR :: int
  shadowG :: int
  shadowB :: int
  shadowA :: number

record boxShadow =
  shadowOffsetX :: number
  shadowOffsetY :: number
  shadowRadius :: number
  shadowRgba :: shadowColor

record padding =
  padLeft :: number
  padRight :: number
  padTop :: number
  padBottom :: number

record typography =
  typoFontSize :: "number option"
  typoFontWeight :: "number option"
  typoLineHeight :: "number option"
  typoLetterSpacing :: "number option"
  typoTextAlign :: "string option"

text \<open>The style bag: a key that was not assigned is \<open>None\<close>.\<close>

record styles =
  styleWidth :: "number option"
  styleHeight :: "number option"
  borderRadius :: "number option"
  stylePadding :: "padding option"
  styleTypography :: "typography option"
  backgroundColor :: "rgb255 option"
  borderColor :: "rgb255 option"
  styleBoxShadow :: "boxShadow option"

definition truthyOnly :: "number option \<Rightarrow> number option" where
  "truthyOnly v = (if truthyNum v then v else None)"

definition to255 :: "rgba \<Rightarrow> rgb255" where
  "to255 c =
     \<lparr>rgbR = Math_round (fmul (colorR c) 255), rgbG = Math_round (fmul (colorG c) 255),
      rgbB = Math_round (fmul (colorB c) 255)\<rparr>"

definition firstVisibleColor :: "paint list option \<Rightarrow> rgb255 option" where
  "firstVisibleColor ps =
     (case ps of
        None \<Rightarrow> None
      | Some fs \<Rightarrow> map_option to255 (Option.bind (find visiblePaint fs) paintColor))"

definition orOne :: "number option \<Rightarrow> number" where
  "orOne v = (if truthyNum v then orZero v else 1)"

definition toBoxShadow :: "effect \<Rightarrow> boxShadow" where
  "toBoxShadow e =
     \<lparr>shadowOffsetX = orZero (Option.bind (effectOffset e) offsetX),
      shadowOffsetY = orZero (Option.bind (effectOffset e) offsetY),
      shadowRadius = orZero (effectRadius e),
      shadowRgba =
        (case effectColor e of
           Some c \<Rightarrow>
             \<lparr>shadowR = Math_round (fmul (colorR c) 255),
              shadowG = Math_round (fmul (colorG c) 255),
              shadowB = Math_round (fmul (colorB c) 255), shadowA = orOne (colorA c)\<rparr>
         | None \<Rightarrow> \<lparr>shadowR = 0, shadowG = 0, shadowB = 0, shadowA = fl (25 / 100)\<rparr>)\<rparr>"

definition extractComponentStyles :: "node \<Rightarrow> styles" where
  "extractComponentStyles n =
     \<lparr>styleWidth = truthyOnly (Option.bind (absoluteBoundingBox (attrs n)) boxWidth),
      styleHeight = truthyOnly (Option.bind (absoluteBoundingBox (attrs n)) boxHeight),
      borderRadius = truthyOnly (cornerRadius (attrs n)),
      stylePadding =
        (if truthyNum (paddingLeft (attrs n)) \<or> truthyNum (paddingRight (attrs n)) \<or>
            truthyNum (paddingTop (attrs n)) \<or> truthyNum (paddingBottom (attrs n))
         then Some \<lparr>padLeft = orZero (paddingLeft (attrs n)),
                    padRight = orZero (paddingRight (attrs n)),
                    padTop = orZero (paddingTop (attrs n)),
                    padBottom = orZero (paddingBottom (attrs n))\<rparr>
         else None),
      styleTypography =
        map_option (\<lambda>st. \<lparr>typoFontSize = fontSize st, typoFontWeight = fontWeight st,
                           typoLineHeight = lineHeight st, typoLetterSpacing = letterSpacing st,
                           typoTextAlign = textAlignHorizontal st\<rparr>) (nodeStyle (attrs n)),
      backgroundColor = firstVisibleColor (fills (attrs n)),
      borderColor = firstVisibleColor (strokes (attrs n)),
      styleBoxShadow =
        (case effects (attrs n) of
           None \<Rightarrow> None
         | Some es \<Rightarrow> map_option toBoxShadow (find visibleDropShadow es))\<rparr>"

section \<open>Support status and target mapping\<close>

definition fullySupported :: "string list" where
  "fullySupported = [''Button'', ''Input'', ''Card'', ''Checkbox'', ''Radio'']"

definition partiallySupported :: "string list" where
  "partiallySupported = [''Select'', ''DatePicker'', ''Tabs'', ''Table'']"

definition determineComponentSupportStatus :: "string \<Rightarrow> string" where
  "determineComponentSupportStatus componentType =
     (if componentType \<in> set fullySupported then ''supported''
      else if componentType \<in> set partiallySupported then ''partial''
      else ''unsupported'')"

text \<open>
  \<^verbatim>\<open>componentMap[componentType]\<close>, for the keys of the object literal: the type strings
  that the type resolution returns are among them or are no key at all (the keys a
  JavaScript object inherits, such as \<^verbatim>\<open>constructor\<close>, are no type string).
\<close>

definition componentMap :: "(string \<times> string) list" where
  "componentMap =
     [(''Button'', ''mat-button''), (''Input'', ''mat-form-field''), (''Card'', ''mat-card''),
      (''Checkbox'', ''mat-checkbox''), (''Radio'', ''mat-radio''), (''Select'', ''mat-select''),
      (''DatePicker'', ''mat-datepicker''), (''Tabs'', ''mat-tabs''), (''Table'', ''mat-table'')]"

definition mapToAngularMaterialComponent :: "string \<Rightarrow> string option" where
  "mapToAngularMaterialComponent componentType = map_of componentMap componentType"

section \<open>The tree walk and the analysis\<close>

record component =
  figmaId :: "string option"
  compName :: "string option"
  compType :: string
  angularComponent :: "string option"
  supportStatus :: string
  properties :: "(string \<times> jsval) list"
  compStyles :: styles

text \<open>The record that \<^verbatim>\<open>traverseFigmaNodes\<close> pushes for a candidate.\<close>

definition buildComponent :: "node \<Rightarrow> component option" where
  "buildComponent n =
     do {
       componentType \<leftarrow> detectComponentType n;
       componentProps \<leftarrow> extractComponentProperties n componentType;
       Some \<lparr>figmaId = nodeId (attrs n), compName = nodeName (attrs n),
             compType = componentType,
             angularComponent = mapToAngularMaterialComponent componentType,
             supportStatus = determineComponentSupportStatus componentType,
             properties = componentProps,
             compStyles = extractComponentStyles n\<rparr>
     }"

text \<open>
  \<^verbatim>\<open>traverseFigmaNodes(node, components, frameCount)\<close> returns nothing. Its effect is on
  the array \<^verbatim>\<open>components\<close>, which caller and callee share, so the model returns the
  array. \<^verbatim>\<open>frameCount\<close> is a number: the parameter is a copy, \<^verbatim>\<open>frameCount++\<close>
  changes the copy, the children receive the changed copy and the caller's variable keeps
  its value. \<open>forEachChild\<close> is \<^verbatim>\<open>node.children.forEach\<close>.
\<close>

fun traverseFigmaNodes :: "node \<Rightarrow> component list \<Rightarrow> nat \<Rightarrow> component list option"
  and forEachChild :: "node list \<Rightarrow> component list \<Rightarrow> nat \<Rightarrow> component list option"
where
  "traverseFigmaNodes (Node a cs) components frameCount =
     do {
       candidate \<leftarrow> isComponentCandidate (Node a cs);
       components' \<leftarrow>
         (if candidate then map_option (\<lambda>c. components @ [c]) (buildComponent (Node a cs))
          else Some components);
       let frameCount' =
             (if nodeType a = Some ''FRAME'' \<or> nodeType a = Some ''GROUP''
              then frameCount + 1 else frameCount);
       case cs of
         None \<Rightarrow> Some components'
       | Some kids \<Rightarrow> forEachChild kids components' frameCount'
     }"
| "forEachChild [] components frameCount = Some components"
| "forEachChild (child # rest) components frameCount =
     do {
       components' \<leftarrow> traverseFigmaNodes child components frameCount;
       forEachChild rest components' frameCount
     }"

record figmaData =
  fileId :: "string option"
  fileName :: "string option"
  document :: "node option"

record stats =
  totalComponents :: nat
  frames :: nat
  supported :: nat
  partial :: nat
  unsupported :: nat

record analysisResult =
  resFileKey :: string
  resFileName :: string
  components :: "component list"
  resStats :: stats

text \<open>
  The \<^verbatim>\<open>Error\<close> that the \<^verbatim>\<open>catch\<close> block of \<^verbatim>\<open>analyzeFigmaComponents\<close> throws:
  the message \<^verbatim>\<open>Failed to analyze Figma components:\<close> followed by the message of the
  exception caught.
\<close>

datatype error = FailedToAnalyze

definition orDefault :: "string option \<Rightarrow> string \<Rightarrow> string" where
  "orDefault v d = (case v of None \<Rightarrow> d | Some s \<Rightarrow> if s = [] then d else s)"

definition countStatus :: "string \<Rightarrow> component list \<Rightarrow> nat" where
  "countStatus st cs = length (filter (\<lambda>c. supportStatus c = st) cs)"

definition analyzeFigmaComponents :: "figmaData \<Rightarrow> error + analysisResult" where
  "analyzeFigmaComponents d =
     (let fileKey = orDefault (fileId d) ''figma-file-1'';
          fileName' = orDefault (fileName d) ''Design System'';
          frameCount = 0
      in case Option.bind (document d) (\<lambda>tree. traverseFigmaNodes tree [] frameCount) of
           None \<Rightarrow> Inl FailedToAnalyze
         | Some cs \<Rightarrow>
             Inr \<lparr>resFileKey = fileKey, resFileName = fileName', components = cs,
                  resStats = \<lparr>totalComponents = length cs, frames = frameCount,
                              supported = countStatus ''supported'' cs,
                              partial = countStatus ''partial'' cs,
                              unsupported = countStatus ''unsupported'' cs\<rparr>\<rparr>)"

section \<open>Reference definitions\<close>

text \<open>All nodes of a tree, in pre-order, and the number of frames and groups among them.\<close>

fun nodesOf :: "node \<Rightarrow> node list" where
  "nodesOf (Node a None) = [Node a None]"
| "nodesOf (Node a (Some kids)) = Node a (Some kids) # concat (map nodesOf kids)"

definition isFrameOrGroup :: "node \<Rightarrow> bool" where
  "isFrameOrGroup n = (kind n = Some ''FRAME'' \<or> kind n = Some ''GROUP'')"

definition countFrames :: "node \<Rightarrow> nat" where
  "countFrames n = length (filter isFrameOrGroup (nodesOf n))"

definition named :: "node \<Rightarrow> bool" where
  "named n = (nodeName (attrs n) \<noteq> None)"

definition namedKids :: "node \<Rightarrow> bool" where
  "namedKids n = (case children n of None \<Rightarrow> True | Some kids \<Rightarrow> list_all named kids)"

text \<open>
  The kinds for which the visit of a node reads the name of the node itself: the candidate
  test reads the name of a frame, the type resolution the name of an instance or a
  component. The names of children are read by the type resolution and the property
  extraction of a candidate parent, whatever the kind of the child; the predicates below
  say which.
\<close>

definition needsName :: "node \<Rightarrow> bool" where
  "needsName n =
     (kind n = Some ''FRAME'' \<or> kind n = Some ''INSTANCE'' \<or> kind n = Some ''COMPONENT'')"

text \<open>
  The visit of one node by \<^verbatim>\<open>traverseFigmaNodes\<close> throws: the candidate test throws, or
  the node is a candidate and building its record throws.
\<close>

definition visitFails :: "node \<Rightarrow> bool" where
  "visitFails n =
     (case isComponentCandidate n of
        None \<Rightarrow> True
      | Some candidate \<Rightarrow> candidate \<and> buildComponent n = None)"

definition kidsOf :: "node \<Rightarrow> node list" where
  "kidsOf n = (case children n of None \<Rightarrow> [] | Some kids \<Rightarrow> kids)"

definition nameHas :: "string \<Rightarrow> node \<Rightarrow> bool" where
  "nameHas s n =
     (case nodeName (attrs n) of None \<Rightarrow> False | Some nm \<Rightarrow> sublist s (toLowerCase nm))"

text \<open>
  A loop over the children that reads the name of the children \<open>reads\<close> and ends at the
  first child \<open>stops\<close>: it comes to a child whose name it reads and that has none.
\<close>

fun readsUnnamed :: "(node \<Rightarrow> bool) \<Rightarrow> (node \<Rightarrow> bool) \<Rightarrow> node list \<Rightarrow> bool" where
  "readsUnnamed reads stops [] = False"
| "readsUnnamed reads stops (c # cs) =
     ((reads c \<and> \<not> named c) \<or> (\<not> stops c \<and> readsUnnamed reads stops cs))"

text \<open>The children at which the loops of the source end.\<close>

definition charactersHave :: "(string \<Rightarrow> bool) \<Rightarrow> node \<Rightarrow> bool" where
  "charactersHave p n = (case characters (attrs n) of None \<Rightarrow> False | Some s \<Rightarrow> p s)"

definition labelLike :: "node \<Rightarrow> bool" where
  "labelLike n = (isText n \<and> (nameHas ''label'' n \<or> charactersHave (\<lambda>s. length s < 30) n))"

definition inputArea :: "node \<Rightarrow> bool" where
  "inputArea n =
     (kind n = Some ''RECTANGLE'' \<or> (kind n = Some ''FRAME'' \<and> nameHas ''input'' n))"

definition iconLike :: "node \<Rightarrow> bool" where
  "iconLike n =
     (kind n = Some ''VECTOR'' \<or> nameHas ''icon'' n \<or>
      (truthyNum (nodeWidth (attrs n)) \<and> truthyNum (nodeHeight (attrs n)) \<and>
       nodeWidth (attrs n) = nodeHeight (attrs n) \<and> ltNum (nodeWidth (attrs n)) (Some 24)))"

definition textFor :: "string \<Rightarrow> node \<Rightarrow> bool" where
  "textFor purpose n = (isText n \<and> nameHas (toLowerCase purpose) n)"

definition starText :: "node \<Rightarrow> bool" where
  "starText n = (isText n \<and> charactersHave (sublist ''*'') n)"

definition requiredMark :: "node \<Rightarrow> bool" where
  "requiredMark n = (starText n \<or> nameHas ''required'' n \<or> nameHas ''asterisk'' n)"

definition actionsFrame :: "node \<Rightarrow> bool" where
  "actionsFrame n = (isFrameOrGroup n \<and> (nameHas ''action'' n \<or> nameHas ''button'' n))"

definition buttonIdInstance :: "node \<Rightarrow> bool" where
  "buttonIdInstance n =
     (kind n = Some ''INSTANCE'' \<and>
      (case componentId (attrs n) of None \<Rightarrow> False | Some cid \<Rightarrow> sublist ''button'' cid))"

definition buttonInstance :: "node \<Rightarrow> bool" where
  "buttonInstance n =
     (kind n = Some ''INSTANCE'' \<and> (buttonIdInstance n \<or> nameHas ''button'' n))"

text \<open>
  The rule chain of the specification for type resolution: the catalog lookup (rule 1),
  then the name rules 2 to 10 as an ordered list of pairs of a test on the lowercase name
  and a type; the first pair whose test holds decides.
\<close>

definition specCatalogType :: "string option \<Rightarrow> string option" where
  "specCatalogType cid =
     (case cid of
        None \<Rightarrow> None
      | Some c \<Rightarrow> map_option fst (find (\<lambda>entry. c \<in> set (snd entry)) COMPONENT_TYPE_IDS))"

definition specNameRules :: "((string \<Rightarrow> bool) \<times> string) list" where
  "specNameRules =
     [(\<lambda>nm. sublist ''button'' nm, ''Button''),
      (\<lambda>nm. sublist ''input'' nm \<or> sublist ''field'' nm \<or> sublist ''text field'' nm, ''Input''),
      (\<lambda>nm. sublist ''card'' nm, ''Card''),
      (\<lambda>nm. sublist ''check'' nm, ''Checkbox''),
      (\<lambda>nm. sublist ''select'' nm \<or> sublist ''dropdown'' nm \<or> sublist ''combo'' nm, ''Select''),
      (\<lambda>nm. sublist ''date'' nm \<or> sublist ''calendar'' nm, ''DatePicker''),
      (\<lambda>nm. sublist ''tab'' nm \<and> \<not> sublist ''table'' nm, ''Tabs''),
      (\<lambda>nm. sublist ''table'' nm, ''Table''),
      (\<lambda>nm. sublist ''carousel'' nm \<or> sublist ''slider'' nm, ''Carousel'')]"

fun firstRule :: "(('a \<Rightarrow> bool) \<times> 'b) list \<Rightarrow> 'a \<Rightarrow> 'b option" where
  "firstRule [] v = None"
| "firstRule (rule # rules) v = (if fst rule v then Some (snd rule) else firstRule rules v)"

text \<open>
  Rules 11 and 12 of the specification: the structural tests in their order, then Custom.
  A test that throws ends the resolution.
\<close>

fun firstRuleM :: "(('a \<Rightarrow> bool option) \<times> 'b) list \<Rightarrow> 'b \<Rightarrow> 'a \<Rightarrow> 'b option" where
  "firstRuleM [] dflt v = Some dflt"
| "firstRuleM (rule # rules) dflt v =
     (case fst rule v of
        None \<Rightarrow> None
      | Some holds \<Rightarrow> if holds then Some (snd rule) else firstRuleM rules dflt v)"

definition specStructuralRules :: "((node \<Rightarrow> bool option) \<times> string) list" where
  "specStructuralRules =
     [(hasButtonLikeStructure, ''Button''), (hasInputFieldStructure, ''Input''),
      (\<lambda>n. Some (hasCardStructure n), ''Card'')]"

text \<open>The keywords of the specification that make a frame a candidate.\<close>

definition candidateKeywords :: "string list" where
  "candidateKeywords =
     [''button'', ''input'', ''field'', ''card'', ''checkbox'', ''select'', ''date'', ''table'',
      ''tab'', ''carousel'']"

section \<open>Example trees\<close>

definition emptyAttrs :: attrs where
  "emptyAttrs =
     \<lparr>nodeId = None, nodeName = None, nodeType = None, componentId = None, fills = None,
      strokes = None, effects = None, absoluteBoundingBox = None, cornerRadius = None,
      nodeOpacity = None, characters = None, nodeStyle = None, nodeX = None, nodeY = None,
      nodeWidth = None, nodeHeight = None, paddingLeft = None, paddingRight = None,
      paddingTop = None, paddingBottom = None\<rparr>"

definition leaf :: "string \<Rightarrow> string \<Rightarrow> string \<Rightarrow> attrs" where
  "leaf i nm k = emptyAttrs\<lparr>nodeId := Some i, nodeName := Some nm, nodeType := Some k\<rparr>"

definition solid :: "number \<Rightarrow> number \<Rightarrow> number \<Rightarrow> paint" where
  "solid cr cg cb =
     \<lparr>paintVisible = None, paintOpacity = None,
      paintColor = Some \<lparr>colorR = cr, colorG = cg, colorB = cb, colorA = None\<rparr>\<rparr>"

definition dropShadow :: effect where
  "dropShadow =
     \<lparr>effectType = Some ''DROP_SHADOW'', effectVisible = Some True, effectOffset = None,
      effectRadius = None, effectColor = None\<rparr>"

definition box :: "number \<Rightarrow> number \<Rightarrow> boundingBox" where
  "box w h = \<lparr>boxWidth = Some w, boxHeight = Some h\<rparr>"

definition textNode :: "string \<Rightarrow> string \<Rightarrow> string \<Rightarrow> node" where
  "textNode i nm s = Node ((leaf i nm ''TEXT'')\<lparr>characters := Some s\<rparr>) None"

text \<open>The node \<^verbatim>\<open>1:1\<close> of the tree that \<^verbatim>\<open>importFigmaFile\<close> returns.\<close>

definition primaryButton :: node where
  "primaryButton =
     Node ((leaf ''1:1'' ''Primary Button'' ''INSTANCE'')
       \<lparr>componentId := Some ''button-primary'',
        fills := Some [solid (fl (2 / 10)) (fl (4 / 10)) (fl (9 / 10))],
        strokes := Some [],
        effects := Some [dropShadow],
        absoluteBoundingBox := Some (box 120 40),
        cornerRadius := Some 4\<rparr>) None"

definition inputField :: node where
  "inputField =
     Node ((leaf ''1:2'' ''Input Field'' ''INSTANCE'')
       \<lparr>componentId := Some ''input-standard'',
        fills := Some [solid 1 1 1],
        strokes := Some [solid (fl (8 / 10)) (fl (8 / 10)) (fl (8 / 10))],
        absoluteBoundingBox := Some (box 280 56),
        cornerRadius := Some 4\<rparr>)
       (Some [textNode ''1:2:1'' ''Label'' ''Username'',
              Node (leaf ''1:2:2'' ''Input'' ''RECTANGLE'') None,
              textNode ''1:2:3'' ''Hint'' ''Enter your username''])"

definition cardComponent :: node where
  "cardComponent =
     Node ((leaf ''1:3'' ''Card Component'' ''FRAME'')
       \<lparr>fills := Some [solid 1 1 1],
        effects := Some [dropShadow],
        absoluteBoundingBox := Some (box 320 200),
        cornerRadius := Some 8\<rparr>)
       (Some [Node ((leaf ''1:3:1'' ''Card Title'' ''TEXT'')
                \<lparr>characters := Some ''Card Title'',
                 nodeStyle := Some \<lparr>fontSize = Some 18, fontWeight = Some 600,
                   lineHeight = None, letterSpacing = None, textAlignHorizontal = None\<rparr>\<rparr>) None,
              textNode ''1:3:2'' ''Card Content''
                ''This is the card content area with description text.'',
              Node (leaf ''1:3:3'' ''Card Actions'' ''FRAME'')
                (Some [Node ((leaf ''1:3:3:1'' ''Action 1'' ''INSTANCE'')
                         \<lparr>componentId := Some ''button-text''\<rparr>) None,
                       Node ((leaf ''1:3:3:2'' ''Action 2'' ''INSTANCE'')
                         \<lparr>componentId := Some ''button-text''\<rparr>) None])])"

definition datePicker :: node where
  "datePicker =
     Node ((leaf ''1:4'' ''Date Picker'' ''INSTANCE'')
       \<lparr>componentId := Some ''date-picker'', absoluteBoundingBox := Some (box 280 56)\<rparr>)
       (Some [Node ((leaf ''1:4:1'' ''Input'' ''INSTANCE'')\<lparr>componentId := Some ''input-standard''\<rparr>)
                (Some [textNode ''1:4:1:1'' ''Label'' ''Select Date'']),
              Node (leaf ''1:4:2'' ''Calendar Icon'' ''VECTOR'') None])"

definition customCarousel :: node where
  "customCarousel =
     Node ((leaf ''1:5'' ''Custom Carousel'' ''FRAME'')\<lparr>absoluteBoundingBox := Some (box 400 240)\<rparr>)
       (Some [Node (leaf ''1:5:1'' ''Slide 1'' ''RECTANGLE'') None,
              Node (leaf ''1:5:2'' ''Slide 2'' ''RECTANGLE'') None,
              Node (leaf ''1:5:3'' ''Navigation'' ''FRAME'')
                (Some [Node (leaf ''1:5:3:1'' ''Prev'' ''VECTOR'') None,
                       Node (leaf ''1:5:3:2'' ''Next'' ''VECTOR'') None])])"

text \<open>The document that \<^verbatim>\<open>importFigmaFile\<close> returns: a root without name and kind.\<close>

definition mockDocument :: node where
  "mockDocument =
     Node emptyAttrs
       (Some [Node (leaf ''0:1'' ''Page 1'' ''CANVAS'')
                (Some [primaryButton, inputField, cardComponent, datePicker, customCarousel])])"

definition fileOf :: "node \<Rightarrow> figmaData" where
  "fileOf tree = \<lparr>fileId = None, fileName = None, document = Some tree\<rparr>"

text \<open>Small trees for the single rules.\<close>

definition singleFrame :: node where
  "singleFrame = Node (leaf ''0:1'' ''Frame 1'' ''FRAME'') None"

definition buttonGroup :: node where
  "buttonGroup = Node (leaf ''2:1'' ''Button Group'' ''GROUP'') None"

definition emptySelect :: node where
  "emptySelect = Node (leaf ''3:1'' ''Country Select'' ''INSTANCE'') None"

definition plainInput :: node where
  "plainInput = Node (leaf ''3:2'' ''Input'' ''INSTANCE'') (Some [])"

definition plainCard :: node where
  "plainCard = Node (leaf ''3:3'' ''Card'' ''FRAME'') (Some [])"

definition transparentButton :: node where
  "transparentButton = Node ((leaf ''4:1'' ''Button'' ''INSTANCE'')\<lparr>nodeOpacity := Some 0\<rparr>) None"

definition textInputWithButtonId :: node where
  "textInputWithButtonId =
     Node ((leaf ''5:1'' ''Text Input'' ''INSTANCE'')\<lparr>componentId := Some ''button-primary''\<rparr>) None"

definition tabButton :: node where
  "tabButton = Node (leaf ''5:2'' ''Tab Button'' ''FRAME'') None"

definition actionInstance :: node where
  "actionInstance =
     Node ((leaf ''1:3:3:1'' ''Action 1'' ''INSTANCE'')\<lparr>componentId := Some ''button-text''\<rparr>) None"

text \<open>Nodes that lack a name, a kind or both.\<close>

definition bareNode :: node where
  "bareNode = Node emptyAttrs None"

definition namelessText :: node where
  "namelessText = Node (emptyAttrs\<lparr>nodeType := Some ''TEXT''\<rparr>) None"

definition kindlessButton :: node where
  "kindlessButton = Node (emptyAttrs\<lparr>nodeName := Some ''Button''\<rparr>) None"

definition namelessInstance :: node where
  "namelessInstance = Node (emptyAttrs\<lparr>nodeType := Some ''INSTANCE''\<rparr>) None"

definition pageWith :: "node list \<Rightarrow> node" where
  "pageWith kids = Node (leaf ''0:1'' ''Page 1'' ''CANVAS'') (Some kids)"

definition namelessButtonInstance :: node where
  "namelessButtonInstance =
     Node (emptyAttrs\<lparr>nodeType := Some ''INSTANCE'', componentId := Some ''button-primary''\<rparr>)
       None"

definition tabButtonWithTabsId :: node where
  "tabButtonWithTabsId =
     Node ((leaf ''5:3'' ''Tab Button'' ''INSTANCE'')\<lparr>componentId := Some ''tabs-standard''\<rparr>)
       None"

text \<open>Candidates with a name and a child without one.\<close>

definition inputWithNamelessText :: node where
  "inputWithNamelessText =
     Node (leaf ''6:1'' ''Input'' ''INSTANCE'') (Some [namelessText])"

definition buttonWithBareChild :: node where
  "buttonWithBareChild =
     Node (leaf ''6:2'' ''Button'' ''INSTANCE'') (Some [bareNode])"

definition selectWithNamelessGroup :: node where
  "selectWithNamelessGroup =
     Node (leaf ''6:3'' ''Select'' ''FRAME'')
       (Some [Node (emptyAttrs\<lparr>nodeType := Some ''GROUP''\<rparr>) None])"

definition buttonWithIconThenBare :: node where
  "buttonWithIconThenBare =
     Node (leaf ''6:4'' ''Button'' ''INSTANCE'')
       (Some [Node (emptyAttrs\<lparr>nodeType := Some ''VECTOR''\<rparr>) None, bareNode])"

section \<open>Strings and the tree walk\<close>

text \<open>\<open>str_includes\<close> is the contiguous-sublist relation of the library.\<close>

lemma startsWith_prefix: "startsWith s p = prefix p s"
  by (induction s p rule: startsWith.induct) auto

lemma str_includes_sublist: "str_includes s p = sublist p s"
  by (induction s) (simp_all add: startsWith_prefix sublist_Cons_right)

text \<open>
  The walk only appends records that \<open>buildComponent\<close> made: what holds of every such
  record and of the records already in the array holds of the array returned.
\<close>

lemma traverse_invariant:
  assumes build: "\<And>n c. buildComponent n = Some c \<Longrightarrow> P c"
  shows "traverseFigmaNodes n comps fc = Some comps' \<Longrightarrow> list_all P comps \<Longrightarrow> list_all P comps'"
    and "forEachChild ns comps fc = Some comps' \<Longrightarrow> list_all P comps \<Longrightarrow> list_all P comps'"
proof (induction n comps fc and ns comps fc arbitrary: comps' and comps'
    rule: traverseFigmaNodes_forEachChild.induct)
  case (1 a cs components frameCount)
  then show ?case
    by (auto split: bind_splits if_splits option.splits simp: build)
next
  case (2 components frameCount)
  then show ?case by simp
next
  case (3 child rest components frameCount)
  then show ?case by (auto split: bind_splits)
qed

lemma analyze_Inr:
  assumes "analyzeFigmaComponents d = Inr r"
  obtains tree where "document d = Some tree"
    and "traverseFigmaNodes tree [] 0 = Some (components r)"
    and "resStats r = \<lparr>totalComponents = length (components r), frames = 0,
           supported = countStatus ''supported'' (components r),
           partial = countStatus ''partial'' (components r),
           unsupported = countStatus ''unsupported'' (components r)\<rparr>"
  using assms unfolding analyzeFigmaComponents_def Let_def
  by (cases "document d") (auto split: option.splits)

lemma status_values:
  "determineComponentSupportStatus t \<in> {''supported'', ''partial'', ''unsupported''}"
  by (simp add: determineComponentSupportStatus_def)

lemma buildComponent_status:
  "buildComponent n = Some c \<Longrightarrow> supportStatus c = determineComponentSupportStatus (compType c)"
  by (auto simp: buildComponent_def split: bind_splits)

lemma count_three:
  "list_all (\<lambda>c. supportStatus c \<in> {''supported'', ''partial'', ''unsupported''}) cs \<Longrightarrow>
   countStatus ''supported'' cs + countStatus ''partial'' cs + countStatus ''unsupported'' cs = length cs"
  by (induction cs) (auto simp: countStatus_def)

section \<open>The statistics\<close>

text \<open>
  Claim C2. Whenever \<open>analyzeFigmaComponents\<close> returns a result, \<open>totalComponents\<close> is
  the length of \<open>components\<close>, and \<open>supported\<close>, \<open>partial\<close> and \<open>unsupported\<close> add up
  to \<open>totalComponents\<close>: every record carries one of the three statuses.
\<close>

theorem analysis_stats_consistent:
  "analyzeFigmaComponents d = Inr r \<Longrightarrow>
   totalComponents (resStats r) = length (components r) \<and>
   supported (resStats r) + partial (resStats r) + unsupported (resStats r)
     = totalComponents (resStats r)"
proof -
  assume a: "analyzeFigmaComponents d = Inr r"
  from a obtain tree where t: "traverseFigmaNodes tree [] 0 = Some (components r)"
    and s: "resStats r = \<lparr>totalComponents = length (components r), frames = 0,
           supported = countStatus ''supported'' (components r),
           partial = countStatus ''partial'' (components r),
           unsupported = countStatus ''unsupported'' (components r)\<rparr>"
    by (rule analyze_Inr)
  have "list_all (\<lambda>c. supportStatus c \<in> {''supported'', ''partial'', ''unsupported''}) (components r)"
    by (rule traverse_invariant(1)[OF _ t]) (use buildComponent_status status_values in auto)
  from count_three[OF this] s show ?thesis by simp
qed

lemma mock_returns: "isl (analyzeFigmaComponents (fileOf mockDocument)) = False"
  by code_simp

theorem analysis_stats_consistent_witness:
  "\<exists>r. analyzeFigmaComponents (fileOf mockDocument) = Inr r \<and>
       totalComponents (resStats r) = length (components r) \<and>
       supported (resStats r) + partial (resStats r) + unsupported (resStats r)
         = totalComponents (resStats r)"
proof -
  from mock_returns obtain r where r: "analyzeFigmaComponents (fileOf mockDocument) = Inr r"
    by (cases "analyzeFigmaComponents (fileOf mockDocument)") auto
  from analysis_stats_consistent[OF r] r show ?thesis by blast
qed

text \<open>
  Claim C7. The support status is a function of the widget type alone:
  \<open>supported\<close> for Button, Input, Card, Checkbox and Radio, \<open>partial\<close> for Select,
  DatePicker, Tabs and Table, \<open>unsupported\<close> for every other type (Custom and Carousel
  among them); and every record of an analysis result carries the status of its type.
\<close>

theorem support_status_function:
  "determineComponentSupportStatus t =
     (if t \<in> {''Button'', ''Input'', ''Card'', ''Checkbox'', ''Radio''} then ''supported''
      else if t \<in> {''Select'', ''DatePicker'', ''Tabs'', ''Table''} then ''partial''
      else ''unsupported'') \<and>
   (analyzeFigmaComponents d = Inr r \<longrightarrow>
      (\<forall>c \<in> set (components r). supportStatus c = determineComponentSupportStatus (compType c)))"
proof
  show "determineComponentSupportStatus t =
     (if t \<in> {''Button'', ''Input'', ''Card'', ''Checkbox'', ''Radio''} then ''supported''
      else if t \<in> {''Select'', ''DatePicker'', ''Tabs'', ''Table''} then ''partial''
      else ''unsupported'')"
    by (simp add: determineComponentSupportStatus_def fullySupported_def partiallySupported_def)
  show "analyzeFigmaComponents d = Inr r \<longrightarrow>
      (\<forall>c \<in> set (components r). supportStatus c = determineComponentSupportStatus (compType c))"
  proof
    assume a: "analyzeFigmaComponents d = Inr r"
    from a obtain tree where t: "traverseFigmaNodes tree [] 0 = Some (components r)"
      by (rule analyze_Inr)
    have "list_all (\<lambda>c. supportStatus c = determineComponentSupportStatus (compType c)) (components r)"
      by (rule traverse_invariant(1)[OF _ t]) (use buildComponent_status in auto)
    then show "\<forall>c \<in> set (components r). supportStatus c = determineComponentSupportStatus (compType c)"
      by (simp add: list_all_iff)
  qed
qed

theorem support_status_function_witness:
  "determineComponentSupportStatus ''Custom'' = ''unsupported'' \<and>
   determineComponentSupportStatus ''Carousel'' = ''unsupported'' \<and>
   determineComponentSupportStatus ''Radio'' = ''supported'' \<and>
   determineComponentSupportStatus ''Tabs'' = ''partial'' \<and>
   (\<exists>r. analyzeFigmaComponents (fileOf mockDocument) = Inr r \<and> components r \<noteq> [] \<and>
        list_all (\<lambda>c. supportStatus c = determineComponentSupportStatus (compType c)) (components r))"
proof -
  from mock_returns obtain r where r: "analyzeFigmaComponents (fileOf mockDocument) = Inr r"
    by (cases "analyzeFigmaComponents (fileOf mockDocument)") auto
  have ne: "(case analyzeFigmaComponents (fileOf mockDocument) of Inl e \<Rightarrow> False | Inr r \<Rightarrow> components r \<noteq> [])"
    by code_simp
  from support_status_function[of "''Custom''" "fileOf mockDocument" r]
       support_status_function[of "''Carousel''" "fileOf mockDocument" r]
       support_status_function[of "''Radio''" "fileOf mockDocument" r]
       support_status_function[of "''Tabs''" "fileOf mockDocument" r] r ne
  show ?thesis by (auto simp: list_all_iff)
qed

text \<open>
  Claim C1. The claim is that \<open>frames\<close> is the number of nodes of kind \<open>FRAME\<close> or
  \<open>GROUP\<close>. \<^verbatim>\<open>traverseFigmaNodes\<close> increments its own copy of \<^verbatim>\<open>frameCount\<close>, so
  the variable of \<^verbatim>\<open>analyzeFigmaComponents\<close> is still 0 when the statistics are
  built: a document that is one frame has one frame and is reported with \<open>frames = 0\<close>,
  and the tree of \<^verbatim>\<open>importFigmaFile\<close> has four and is reported with \<open>frames = 0\<close>.
\<close>

theorem frame_count_lost:
  "(case analyzeFigmaComponents (fileOf singleFrame) of
      Inl e \<Rightarrow> False
    | Inr r \<Rightarrow> frames (resStats r) = 0 \<and> components r = []) \<and>
   countFrames singleFrame = 1 \<and>
   (case analyzeFigmaComponents (fileOf mockDocument) of
      Inl e \<Rightarrow> False
    | Inr r \<Rightarrow> frames (resStats r) = 0) \<and>
   countFrames mockDocument = 4"
  by code_simp

text \<open>The same for every document: the reported number of frames is 0.\<close>

lemma frames_always_zero:
  "analyzeFigmaComponents d = Inr r \<Longrightarrow> frames (resStats r) = 0"
  by (erule analyze_Inr) simp

section \<open>The primary button\<close>

text \<open>
  Claim C9. The lone component instance \<^verbatim>\<open>Primary Button\<close> with component id
  \<^verbatim>\<open>button-primary\<close>, a visible drop shadow and the solid fill
  \<^verbatim>\<open>{r: 0.2, g: 0.4, b: 0.9}\<close> is analysed as a Button with status \<open>supported\<close>,
  variant \<open>raised\<close>, colour \<open>primary\<close> and background colour \<open>(51, 102, 230)\<close>. The
  product of the doubles 0.9 and 255 is the double 229.5, which \<^verbatim>\<open>Math.round\<close> takes
  to 230, as it takes every half up.
\<close>

theorem primary_button_scenario:
  "(case analyzeFigmaComponents (fileOf primaryButton) of
      Inl e \<Rightarrow> False
    | Inr r \<Rightarrow>
        (case components r of
           [c] \<Rightarrow>
             compType c = ''Button'' \<and> supportStatus c = ''supported'' \<and>
             map_of (properties c) ''variant'' = Some (JStr ''raised'') \<and>
             map_of (properties c) ''color'' = Some (JStr ''primary'') \<and>
             backgroundColor (compStyles c) = Some \<lparr>rgbR = 51, rgbG = 102, rgbB = 230\<rparr>
         | _ \<Rightarrow> False)) \<and>
   fmul (fl (9 / 10)) 255 = 229 + 1 / 2 \<and>
   Math_round (229 + 1 / 2) = 230 \<and>
   (\<forall>k. Math_round (of_int k + 1 / 2) = k + 1)"
proof -
  have "\<forall>k. Math_round (of_int k + 1 / 2) = k + 1"
    by (simp add: Math_round_def)
  moreover have "(case analyzeFigmaComponents (fileOf primaryButton) of
      Inl e \<Rightarrow> False
    | Inr r \<Rightarrow>
        (case components r of
           [c] \<Rightarrow>
             compType c = ''Button'' \<and> supportStatus c = ''supported'' \<and>
             map_of (properties c) ''variant'' = Some (JStr ''raised'') \<and>
             map_of (properties c) ''color'' = Some (JStr ''primary'') \<and>
             backgroundColor (compStyles c) = Some \<lparr>rgbR = 51, rgbG = 102, rgbB = 230\<rparr>
         | _ \<Rightarrow> False))" by code_simp
  moreover have "fmul (fl (9 / 10)) 255 = 229 + 1 / 2" by code_simp
  moreover have "Math_round (229 + 1 / 2) = 230" by code_simp
  ultimately show ?thesis by blast
qed


section \<open>Type resolution\<close>

text \<open>The three parts of \<open>detectComponentType\<close> against the rule chain.\<close>

lemma firstEntry_find:
  "map_option fst (firstEntry p es) = map_option fst (find (\<lambda>entry. p (snd entry)) es)"
  by (induction es) simp_all

lemma empty_id_not_in_catalog:
  "find (\<lambda>entry. [] \<in> set (snd entry)) COMPONENT_TYPE_IDS = None"
  by (simp add: COMPONENT_TYPE_IDS_def)

lemma typeOfComponentId_spec:
  "typeOfComponentId n = specCatalogType (componentId (attrs n))"
  by (auto simp: typeOfComponentId_def specCatalogType_def firstEntry_find empty_id_not_in_catalog
      split: option.splits)

lemma sublist_trans: "sublist xs ys \<Longrightarrow> sublist ys zs \<Longrightarrow> sublist xs zs"
  unfolding sublist_def by (metis append.assoc)

lemma sublist_checkbox: "sublist ''checkbox'' s \<Longrightarrow> sublist ''check'' s"
proof -
  have "sublist ''check'' ''checkbox''" by code_simp
  then show "sublist ''checkbox'' s \<Longrightarrow> sublist ''check'' s"
    by (rule sublist_trans)
qed

lemma sublist_data_table: "sublist ''data table'' s \<Longrightarrow> sublist ''table'' s"
proof -
  have "sublist ''table'' ''data table''" by code_simp
  then show "sublist ''data table'' s \<Longrightarrow> sublist ''table'' s"
    by (rule sublist_trans)
qed

lemma sublist_table_tab: "sublist ''table'' s \<Longrightarrow> sublist ''tab'' s"
proof -
  have "sublist ''tab'' ''table''" by code_simp
  then show "sublist ''table'' s \<Longrightarrow> sublist ''tab'' s"
    by (rule sublist_trans)
qed

lemma nameRule_spec: "nameRule nl = firstRule specNameRules nl"
  using sublist_checkbox[of nl] sublist_data_table[of nl]
  by (auto simp add: nameRule_def specNameRules_def str_includes_sublist)

lemma detect_named:
  "nodeName (attrs n) = Some nm \<Longrightarrow>
   detectComponentType n =
     (case typeOfComponentId n of
        Some t \<Rightarrow> Some t
      | None \<Rightarrow> (case nameRule (toLowerCase nm) of Some t \<Rightarrow> Some t | None \<Rightarrow> structuralFallback n))"
  by (simp add: detectComponentType_def nameLower_def)

lemma structuralFallback_spec: "structuralFallback n = firstRuleM specStructuralRules ''Custom'' n"
  by (simp add: structuralFallback_def specStructuralRules_def split: bind_splits option.splits)

lemma button_ids: "map_of COMPONENT_TYPE_IDS ''Button'' =
   Some [''button-primary'', ''button-secondary'', ''button-flat'', ''button-icon'']"
  by (simp add: COMPONENT_TYPE_IDS_def)

lemma button_id_type:
  "cid \<in> set [''button-primary'', ''button-secondary'', ''button-flat'', ''button-icon''] \<Longrightarrow>
   specCatalogType (Some cid) = Some ''Button''"
  by (auto simp: specCatalogType_def COMPONENT_TYPE_IDS_def)

lemma tab_button_rule: "firstRule specNameRules (toLowerCase ''Tab Button'') = Some ''Button''"
  unfolding nameRule_spec[symmetric] by code_simp

text \<open>
  Claim C3, as the code has it. \<open>detectComponentType\<close> reads the name before any rule.
  For a node with a name it is the rule chain of the specification, first match winning:
  the catalog lookup of the component id, then the name rules 2 to 10 in their order,
  then the structural tests in their order, then Custom. So a named node whose component
  id is in the Button catalog is a Button whatever its name, and a node named
  \<^verbatim>\<open>Tab Button\<close> whose component id is not in the catalog is a Button, not Tabs. For a
  node without a name it throws: an instance or a component without a name is a candidate
  and gets no type, whatever its component id.
\<close>

theorem type_resolution_precedence:
  "detectComponentType n =
     (case nodeName (attrs n) of
        None \<Rightarrow> None
      | Some nm \<Rightarrow>
          (case specCatalogType (componentId (attrs n)) of
             Some t \<Rightarrow> Some t
           | None \<Rightarrow>
               (case firstRule specNameRules (toLowerCase nm) of
                  Some t \<Rightarrow> Some t
                | None \<Rightarrow> firstRuleM specStructuralRules ''Custom'' n))) \<and>
   (\<forall>nm cid ids. nodeName (attrs n) = Some nm \<and> componentId (attrs n) = Some cid \<and>
        map_of COMPONENT_TYPE_IDS ''Button'' = Some ids \<and> cid \<in> set ids \<longrightarrow>
        detectComponentType n = Some ''Button'') \<and>
   (nodeName (attrs n) = Some ''Tab Button'' \<and>
    specCatalogType (componentId (attrs n)) = None \<longrightarrow>
      detectComponentType n = Some ''Button'') \<and>
   (nodeName (attrs n) = None \<and> (kind n = Some ''INSTANCE'' \<or> kind n = Some ''COMPONENT'') \<longrightarrow>
      isComponentCandidate n = Some True \<and> detectComponentType n = None)"
proof -
  have eq: "detectComponentType n =
     (case nodeName (attrs n) of
        None \<Rightarrow> None
      | Some nm \<Rightarrow>
          (case specCatalogType (componentId (attrs n)) of
             Some t \<Rightarrow> Some t
           | None \<Rightarrow>
               (case firstRule specNameRules (toLowerCase nm) of
                  Some t \<Rightarrow> Some t
                | None \<Rightarrow> firstRuleM specStructuralRules ''Custom'' n)))"
  proof (cases "nodeName (attrs n)")
    case None
    then show ?thesis by (simp add: detectComponentType_def nameLower_def)
  next
    case (Some nm)
    show ?thesis
      using detect_named[OF Some]
      unfolding typeOfComponentId_spec nameRule_spec structuralFallback_spec Some option.case .
  qed
  have b: "\<forall>nm cid ids. nodeName (attrs n) = Some nm \<and> componentId (attrs n) = Some cid \<and>
        map_of COMPONENT_TYPE_IDS ''Button'' = Some ids \<and> cid \<in> set ids \<longrightarrow>
        detectComponentType n = Some ''Button''"
    using button_id_type by (auto simp: eq button_ids simp del: set_simps)
  have t: "nodeName (attrs n) = Some ''Tab Button'' \<and>
    specCatalogType (componentId (attrs n)) = None \<longrightarrow>
      detectComponentType n = Some ''Button''"
    by (auto simp: eq tab_button_rule)
  have u: "nodeName (attrs n) = None \<and> (kind n = Some ''INSTANCE'' \<or> kind n = Some ''COMPONENT'') \<longrightarrow>
      isComponentCandidate n = Some True \<and> detectComponentType n = None"
    by (auto simp: eq isComponentCandidate_def)
  from eq b t u show ?thesis by blast
qed

theorem type_resolution_precedence_witness:
  "detectComponentType textInputWithButtonId = Some ''Button'' \<and>
   sublist ''input'' (toLowerCase ''Text Input'') \<and>
   detectComponentType tabButton = Some ''Button'' \<and>
   sublist ''tab'' (toLowerCase ''Tab Button'') \<and>
   isComponentCandidate namelessInstance = Some True \<and>
   detectComponentType namelessInstance = None"
proof -
  note T = type_resolution_precedence
  have n1: "nodeName (attrs textInputWithButtonId) = Some ''Text Input''"
    and c1: "componentId (attrs textInputWithButtonId) = Some ''button-primary''"
    and n2: "nodeName (attrs tabButton) = Some ''Tab Button''"
    and c2: "specCatalogType (componentId (attrs tabButton)) = None"
    and n3: "nodeName (attrs namelessInstance) = None"
    and k3: "kind namelessInstance = Some ''INSTANCE''"
    by (simp_all add: textInputWithButtonId_def tabButton_def namelessInstance_def leaf_def
        emptyAttrs_def specCatalogType_def)
  have i: "sublist ''input'' (toLowerCase ''Text Input'')"
    and t: "sublist ''tab'' (toLowerCase ''Tab Button'')"
    unfolding str_includes_sublist[symmetric] by code_simp+
  from T[of textInputWithButtonId, THEN conjunct2, THEN conjunct1] n1 c1 button_ids
  have a: "detectComponentType textInputWithButtonId = Some ''Button''" by auto
  from T[of tabButton, THEN conjunct2, THEN conjunct2, THEN conjunct1] c2 n2
  have b: "detectComponentType tabButton = Some ''Button''" by auto
  from T[of namelessInstance, THEN conjunct2, THEN conjunct2, THEN conjunct2] n3 k3
  have c: "isComponentCandidate namelessInstance = Some True \<and>
      detectComponentType namelessInstance = None" by auto
  from a b c i t show ?thesis by simp
qed

text \<open>
  The claim C3 as stated fails: the instance without a name whose component id is
  \<^verbatim>\<open>button-primary\<close> is a candidate, the catalog has its id under Button, and the type
  resolution throws, so the analysis fails. And the instance named \<^verbatim>\<open>Tab Button\<close>
  with the component id \<^verbatim>\<open>tabs-standard\<close> is Tabs, by rule 1.
\<close>

theorem nameless_candidate_not_resolved:
  "isComponentCandidate namelessButtonInstance = Some True \<and>
   nodeName (attrs namelessButtonInstance) = None \<and>
   specCatalogType (componentId (attrs namelessButtonInstance)) = Some ''Button'' \<and>
   detectComponentType namelessButtonInstance = None \<and>
   analyzeFigmaComponents (fileOf namelessButtonInstance) = Inl FailedToAnalyze \<and>
   nodeName (attrs tabButtonWithTabsId) = Some ''Tab Button'' \<and>
   detectComponentType tabButtonWithTabsId = Some ''Tabs''"
  by code_simp

section \<open>Candidates\<close>

lemma nameRule_None:
  "nameRule nl = None \<longleftrightarrow>
     \<not> (sublist ''button'' nl \<or> sublist ''input'' nl \<or> sublist ''field'' nl \<or>
        sublist ''text field'' nl \<or> sublist ''card'' nl \<or> sublist ''check'' nl \<or>
        sublist ''checkbox'' nl \<or> sublist ''select'' nl \<or> sublist ''dropdown'' nl \<or>
        sublist ''combo'' nl \<or> sublist ''date'' nl \<or> sublist ''calendar'' nl \<or>
        sublist ''tab'' nl \<or> sublist ''table'' nl \<or> sublist ''data table'' nl \<or>
        sublist ''carousel'' nl \<or> sublist ''slider'' nl)"
  using sublist_table_tab[of nl]
  by (auto simp add: nameRule_def str_includes_sublist)

lemma candidate_spec:
  "isComponentCandidate n =
     (if kind n = Some ''COMPONENT'' \<or> kind n = Some ''INSTANCE'' then Some True
      else if kind n = Some ''FRAME''
        then map_option (\<lambda>nm. \<exists>k \<in> set candidateKeywords. sublist k (toLowerCase nm))
               (nodeName (attrs n))
      else Some False)"
  by (cases "nodeName (attrs n)")
     (simp_all add: isComponentCandidate_def nameLower_def candidateKeywords_def
        str_includes_sublist)

text \<open>
  Claim C4, as the code has it. A node is a candidate iff its kind is \<open>COMPONENT\<close> or
  \<open>INSTANCE\<close>, or its kind is \<open>FRAME\<close> and its lowercase name contains one of the
  ten keywords (for a frame without a name the test throws). A node of kind \<open>GROUP\<close>
  is never a candidate.
\<close>

theorem candidate_rule:
  "isComponentCandidate n =
     (if kind n = Some ''COMPONENT'' \<or> kind n = Some ''INSTANCE'' then Some True
      else if kind n = Some ''FRAME''
        then map_option (\<lambda>nm. \<exists>k \<in> set candidateKeywords. sublist k (toLowerCase nm))
               (nodeName (attrs n))
      else Some False) \<and>
   (kind n = Some ''GROUP'' \<longrightarrow> isComponentCandidate n = Some False)"
  using candidate_spec[of n] by simp

theorem candidate_rule_witness:
  "isComponentCandidate cardComponent = Some True \<and>
   isComponentCandidate primaryButton = Some True \<and>
   isComponentCandidate singleFrame = Some False \<and>
   kind buttonGroup = Some ''GROUP'' \<and> isComponentCandidate buttonGroup = Some False"
proof -
  have k: "kind buttonGroup = Some ''GROUP''"
    by (simp add: buttonGroup_def leaf_def emptyAttrs_def)
  have "isComponentCandidate cardComponent = Some True"
       "isComponentCandidate primaryButton = Some True"
       "isComponentCandidate singleFrame = Some False"
    by code_simp+
  with candidate_rule[of buttonGroup] k show ?thesis by simp
qed

text \<open>
  The claim C4 as stated fails: the group named \<^verbatim>\<open>Button Group\<close> contains the keyword
  \<open>button\<close> and is not a candidate.
\<close>

theorem group_not_candidate:
  "kind buttonGroup = Some ''GROUP'' \<and>
   nameLower buttonGroup = Some ''button group'' \<and>
   str_includes ''button group'' ''button'' \<and>
   isComponentCandidate buttonGroup = Some False"
  by code_simp

text \<open>
  Claim C10. A candidate of kind \<open>FRAME\<close> has a name that one of the name rules
  matches, so its type is decided by the component id or by that rule and never by the
  structural tests. When the structural tests decide the type of a candidate (neither
  the component id nor a name rule matched), its kind is \<open>INSTANCE\<close> or \<open>COMPONENT\<close>.
\<close>

theorem frames_resolved_by_name:
  "(kind n = Some ''FRAME'' \<and> isComponentCandidate n = Some True \<longrightarrow>
      (\<exists>nl t. nameLower n = Some nl \<and> nameRule nl = Some t \<and>
         detectComponentType n = (case typeOfComponentId n of Some t' \<Rightarrow> Some t' | None \<Rightarrow> Some t))) \<and>
   (isComponentCandidate n = Some True \<and> nameLower n = Some nl' \<and>
    typeOfComponentId n = None \<and> nameRule nl' = None \<longrightarrow>
      (kind n = Some ''INSTANCE'' \<or> kind n = Some ''COMPONENT'') \<and>
      detectComponentType n = structuralFallback n)"
proof (intro conjI impI)
  assume a: "kind n = Some ''FRAME'' \<and> isComponentCandidate n = Some True"
  then have "\<exists>nm. nodeName (attrs n) = Some nm \<and>
      (\<exists>k \<in> set candidateKeywords. sublist k (toLowerCase nm))"
    by (auto simp: candidate_spec)
  then obtain nm where nm: "nodeName (attrs n) = Some nm"
    and kw: "\<exists>k \<in> set candidateKeywords. sublist k (toLowerCase nm)"
    by blast
  from kw have "nameRule (toLowerCase nm) \<noteq> None"
    unfolding nameRule_None using sublist_checkbox[of "toLowerCase nm"]
    by (auto simp: candidateKeywords_def)
  then obtain t where t: "nameRule (toLowerCase nm) = Some t" by auto
  have "detectComponentType n = (case typeOfComponentId n of Some t' \<Rightarrow> Some t' | None \<Rightarrow> Some t)"
    using detect_named[OF nm] t by (simp split: option.splits)
  with nm t show "\<exists>nl t. nameLower n = Some nl \<and> nameRule nl = Some t \<and>
         detectComponentType n = (case typeOfComponentId n of Some t' \<Rightarrow> Some t' | None \<Rightarrow> Some t)"
    by (auto simp: nameLower_def)
next
  assume b: "isComponentCandidate n = Some True \<and> nameLower n = Some nl' \<and>
    typeOfComponentId n = None \<and> nameRule nl' = None"
  then obtain nm where nm: "nodeName (attrs n) = Some nm" and nl: "nl' = toLowerCase nm"
    by (auto simp: nameLower_def)
  from b nl have none: "nameRule (toLowerCase nm) = None" by simp
  show "kind n = Some ''INSTANCE'' \<or> kind n = Some ''COMPONENT''"
  proof (rule ccontr)
    assume "\<not> (kind n = Some ''INSTANCE'' \<or> kind n = Some ''COMPONENT'')"
    with b nm have "kind n = Some ''FRAME''"
      and "\<exists>k \<in> set candidateKeywords. sublist k (toLowerCase nm)"
      by (auto simp: candidate_spec split: if_splits)
    with none show False
      unfolding nameRule_None using sublist_checkbox[of "toLowerCase nm"]
      by (auto simp: candidateKeywords_def)
  qed
  show "detectComponentType n = structuralFallback n"
    using detect_named[OF nm] b none by simp
qed

theorem frames_resolved_by_name_witness:
  "kind cardComponent = Some ''FRAME'' \<and> isComponentCandidate cardComponent = Some True \<and>
   detectComponentType cardComponent = Some ''Card'' \<and>
   nameRule ''card component'' = Some ''Card'' \<and>
   isComponentCandidate actionInstance = Some True \<and>
   nameRule ''action 1'' = None \<and> kind actionInstance = Some ''INSTANCE'' \<and>
   detectComponentType actionInstance = structuralFallback actionInstance \<and>
   structuralFallback actionInstance = Some ''Custom''"
proof -
  have c: "kind cardComponent = Some ''FRAME''" "isComponentCandidate cardComponent = Some True"
    "nameLower cardComponent = Some ''card component''" "typeOfComponentId cardComponent = None"
    "nameRule ''card component'' = Some ''Card''"
    by code_simp+
  have a: "isComponentCandidate actionInstance = Some True"
    "nameLower actionInstance = Some ''action 1''" "typeOfComponentId actionInstance = None"
    "nameRule ''action 1'' = None" "structuralFallback actionInstance = Some ''Custom''"
    by code_simp+
  from frames_resolved_by_name[of cardComponent] c
  have "detectComponentType cardComponent = Some ''Card''" by auto
  moreover from frames_resolved_by_name[of actionInstance "''action 1''"] a
  have "(kind actionInstance = Some ''INSTANCE'' \<or> kind actionInstance = Some ''COMPONENT'') \<and>
      detectComponentType actionInstance = structuralFallback actionInstance" by blast
  moreover have "kind actionInstance = Some ''INSTANCE''" by code_simp
  ultimately show ?thesis using c a by simp
qed

section \<open>Button properties\<close>

text \<open>
  What \<open>isNodeDisabled\<close> computes for a node with a name: the opacity counts when it
  is present, not 0 and below one half.
\<close>

lemma fl_half: "fl (1 / 2) = 1 / 2" by code_simp

lemma isNodeDisabled_rule:
  assumes "nodeName (attrs n) = Some nm"
  shows "isNodeDisabled n =
     Some (sublist ''disabled'' (toLowerCase nm) \<or>
           (\<exists>v. nodeOpacity (attrs n) = Some v \<and> v \<noteq> 0 \<and> v < 1 / 2) \<or>
           (\<exists>fs f c. fills (attrs n) = Some fs \<and> find visiblePaint fs = Some f \<and>
              paintColor f = Some c \<and> saturation c < fl (1 / 10)))"
proof -
  have op: "(truthyNum (nodeOpacity (attrs n)) \<and> ltNum (nodeOpacity (attrs n)) (Some (fl (5 / 10))))
      = (\<exists>v. nodeOpacity (attrs n) = Some v \<and> v \<noteq> 0 \<and> v < 1 / 2)"
    by (auto simp: truthyNum_def ltNum_def fl_half split: option.splits)
  have fc: "(case (case fills (attrs n) of
                  None \<Rightarrow> None
                | Some fs \<Rightarrow> Option.bind (find visiblePaint fs) paintColor) of
            None \<Rightarrow> Some False
          | Some c \<Rightarrow> if saturation c < fl (1 / 10) then Some True else Some False)
      = Some (\<exists>fs f c. fills (attrs n) = Some fs \<and> find visiblePaint fs = Some f \<and>
              paintColor f = Some c \<and> saturation c < fl (1 / 10))"
    by (auto split: option.splits bind_splits)
  show ?thesis
    using assms unfolding isNodeDisabled_def nameLower_def op fc
    by (auto simp: str_includes_sublist)
qed

text \<open>
  Claim C6. The claim is that a Button whose opacity is below 0.5 is disabled, one of
  opacity 0 in particular. The source tests \<^verbatim>\<open>node.opacity && node.opacity < 0.5\<close>,
  and 0 is falsy: the instance named \<^verbatim>\<open>Button\<close> with opacity 0 and no fill is
  classified as a Button with \<open>disabled = false\<close>.
\<close>

theorem zero_opacity_not_disabled:
  "detectComponentType transparentButton = Some ''Button'' \<and>
   nodeOpacity (attrs transparentButton) = Some 0 \<and>
   isNodeDisabled transparentButton = Some False \<and>
   extractComponentProperties transparentButton ''Button'' =
     Some [(''variant'', JStr ''basic''), (''color'', JStr ''primary''),
           (''disabled'', JBool False), (''icon'', JBool False)]"
  by code_simp


section \<open>The property bag\<close>

text \<open>The options of a Select are \<^verbatim>\<open>null\<close> or a list that is not empty.\<close>

lemma mapM_length: "mapM f xs = Some ys \<Longrightarrow> length ys = length xs"
  by (induction xs arbitrary: ys) (auto split: option.splits)

lemma select_options_value:
  assumes "extractSelectOptions n = Some v"
  shows "v = JNull \<or> (\<exists>vs. v = JArr vs \<and> vs \<noteq> [])"
proof (cases "children n")
  case None
  with assms show ?thesis by (simp add: extractSelectOptions_def)
next
  case (Some cs)
  with assms obtain optionNodes where
    r: "(if optionNodes \<noteq> [] then map_option JArr (mapM optionText optionNodes) else Some JNull) = Some v"
    by (auto simp: extractSelectOptions_def split: bind_splits)
  show ?thesis
  proof (cases "optionNodes = []")
    case True
    with r show ?thesis by simp
  next
    case False
    with r obtain vs where "mapM optionText optionNodes = Some vs" "v = JArr vs" by auto
    with False mapM_length[of optionText optionNodes vs] show ?thesis by auto
  qed
qed

text \<open>
  Claim C5, as the code has it. The fields are assigned whatever the extraction returns:
  when it finds no match (it returns \<^verbatim>\<open>null\<close>), the options of a Select, the label
  and the placeholder of an Input and the title and the content of a Card are in the bag
  with the value \<^verbatim>\<open>null\<close>. Only the subtitle of a Card is left out, and the label of
  a Select or a DatePicker gets its default text. The options are never the empty list.
\<close>

theorem unmatched_fields_are_null:
  "(\<forall>props. extractComponentProperties n ''Select'' = Some props \<longrightarrow>
      map fst props = [''label'', ''appearance'', ''options''] \<and>
      (extractSelectOptions n = Some JNull \<longrightarrow> map_of props ''options'' = Some JNull) \<and>
      map_of props ''options'' \<noteq> Some (JArr []) \<and>
      (extractTextContent n ''label'' = Some JNull \<longrightarrow>
         map_of props ''label'' = Some (JStr ''Select an option''))) \<and>
   (\<forall>props. extractComponentProperties n ''DatePicker'' = Some props \<longrightarrow>
      map fst props = [''label'', ''appearance''] \<and>
      (extractTextContent n ''label'' = Some JNull \<longrightarrow>
         map_of props ''label'' = Some (JStr ''Choose a date''))) \<and>
   (\<forall>props. extractComponentProperties n ''Input'' = Some props \<longrightarrow>
      map fst props = [''appearance'', ''label'', ''placeholder'', ''required''] \<and>
      (extractTextContent n ''label'' = Some JNull \<longrightarrow> map_of props ''label'' = Some JNull) \<and>
      (extractTextContent n ''placeholder'' = Some JNull \<and>
       extractTextContent n ''hint'' = Some JNull \<longrightarrow>
         map_of props ''placeholder'' = Some JNull)) \<and>
   (\<forall>props. extractComponentProperties n ''Card'' = Some props \<longrightarrow>
      (extractTextContent n ''title'' = Some JNull \<longrightarrow> map_of props ''title'' = Some JNull) \<and>
      (extractTextContent n ''content'' = Some JNull \<longrightarrow>
         map_of props ''content'' = Some JNull) \<and>
      (extractTextContent n ''subtitle'' = Some JNull \<longrightarrow> map_of props ''subtitle'' = None))"
proof (intro conjI allI impI)
  fix props
  assume "extractComponentProperties n ''Select'' = Some props"
  then obtain l l' ap opts where l: "extractTextContent n ''label'' = Some l"
    and l': "orElse l (Some (JStr ''Select an option'')) = Some l'"
    and o: "extractSelectOptions n = Some opts"
    and p: "props = [(''label'', l'), (''appearance'', JStr ap), (''options'', opts)]"
    by (auto simp: extractComponentProperties_def split: bind_splits)
  show "map fst props = [''label'', ''appearance'', ''options'']" by (simp add: p)
  show "map_of props ''options'' = Some JNull" if "extractSelectOptions n = Some JNull"
    using that o by (simp add: p)
  show "map_of props ''options'' \<noteq> Some (JArr [])"
    using select_options_value[OF o] by (auto simp: p)
  show "map_of props ''label'' = Some (JStr ''Select an option'')"
    if "extractTextContent n ''label'' = Some JNull"
    using that l l' by (simp add: p orElse_def)
next
  fix props
  assume "extractComponentProperties n ''DatePicker'' = Some props"
  then obtain l l' ap where l: "extractTextContent n ''label'' = Some l"
    and l': "orElse l (Some (JStr ''Choose a date'')) = Some l'"
    and p: "props = [(''label'', l'), (''appearance'', JStr ap)]"
    by (auto simp: extractComponentProperties_def split: bind_splits)
  show "map fst props = [''label'', ''appearance'']" by (simp add: p)
  show "map_of props ''label'' = Some (JStr ''Choose a date'')"
    if "extractTextContent n ''label'' = Some JNull"
    using that l l' by (simp add: p orElse_def)
next
  fix props
  assume "extractComponentProperties n ''Input'' = Some props"
  then obtain ap l ph ph' rq where l: "extractTextContent n ''label'' = Some l"
    and ph: "extractTextContent n ''placeholder'' = Some ph"
    and ph': "orElse ph (extractTextContent n ''hint'') = Some ph'"
    and p: "props = [(''appearance'', JStr ap), (''label'', l), (''placeholder'', ph'),
                     (''required'', JBool rq)]"
    by (auto simp: extractComponentProperties_def split: bind_splits)
  show "map fst props = [''appearance'', ''label'', ''placeholder'', ''required'']"
    by (simp add: p)
  show "map_of props ''label'' = Some JNull" if "extractTextContent n ''label'' = Some JNull"
    using that l by (simp add: p)
  show "map_of props ''placeholder'' = Some JNull"
    if "extractTextContent n ''placeholder'' = Some JNull \<and>
        extractTextContent n ''hint'' = Some JNull"
    using that ph ph' by (simp add: p orElse_def)
next
  fix props
  assume "extractComponentProperties n ''Card'' = Some props"
  then obtain t st c ac where t: "extractTextContent n ''title'' = Some t"
    and st: "extractTextContent n ''subtitle'' = Some st"
    and c: "extractTextContent n ''content'' = Some c"
    and p: "props = [(''title'', t)] @ (if truthy st then [(''subtitle'', st)] else []) @
                    [(''content'', c), (''actions'', JBool ac)]"
    by (auto simp: extractComponentProperties_def split: bind_splits)
  show "map_of props ''title'' = Some JNull" if "extractTextContent n ''title'' = Some JNull"
    using that t by (simp add: p)
  show "map_of props ''content'' = Some JNull" if "extractTextContent n ''content'' = Some JNull"
    using that c by (simp add: p)
  show "map_of props ''subtitle'' = None" if "extractTextContent n ''subtitle'' = Some JNull"
    using that st by (simp add: p)
qed

text \<open>
  The claim C5 as stated fails: for a Select without children the key \<open>options\<close> is
  in the bag with the value \<^verbatim>\<open>null\<close>, and for an Input with no text child so are
  \<open>label\<close> and \<open>placeholder\<close>.
\<close>

theorem select_options_present_null:
  "detectComponentType emptySelect = Some ''Select'' \<and>
   extractSelectOptions emptySelect = Some JNull \<and>
   extractComponentProperties emptySelect ''Select'' =
     Some [(''label'', JStr ''Select an option''), (''appearance'', JStr ''standard''),
           (''options'', JNull)] \<and>
   detectComponentType plainInput = Some ''Input'' \<and>
   extractTextContent plainInput ''label'' = Some JNull \<and>
   extractComponentProperties plainInput ''Input'' =
     Some [(''appearance'', JStr ''standard''), (''label'', JNull), (''placeholder'', JNull),
           (''required'', JBool False)]"
  by code_simp

theorem unmatched_fields_are_null_witness:
  "(\<exists>props. extractComponentProperties emptySelect ''Select'' = Some props \<and>
      map_of props ''options'' = Some JNull \<and>
      map_of props ''label'' = Some (JStr ''Select an option'')) \<and>
   (\<exists>props. extractComponentProperties datePicker ''DatePicker'' = Some props \<and>
      map_of props ''label'' = Some (JStr ''Choose a date'')) \<and>
   (\<exists>props. extractComponentProperties plainInput ''Input'' = Some props \<and>
      map_of props ''label'' = Some JNull \<and> map_of props ''placeholder'' = Some JNull) \<and>
   (\<exists>props. extractComponentProperties plainCard ''Card'' = Some props \<and>
      map_of props ''title'' = Some JNull \<and> map_of props ''content'' = Some JNull \<and>
      map_of props ''subtitle'' = None)"
proof -
  have s: "extractComponentProperties emptySelect ''Select'' \<noteq> None"
    "extractSelectOptions emptySelect = Some JNull"
    "extractTextContent emptySelect ''label'' = Some JNull"
    by code_simp+
  have d: "extractComponentProperties datePicker ''DatePicker'' \<noteq> None"
    "extractTextContent datePicker ''label'' = Some JNull"
    by code_simp+
  have i: "extractComponentProperties plainInput ''Input'' \<noteq> None"
    "extractTextContent plainInput ''label'' = Some JNull"
    "extractTextContent plainInput ''placeholder'' = Some JNull"
    "extractTextContent plainInput ''hint'' = Some JNull"
    by code_simp+
  have c: "extractComponentProperties plainCard ''Card'' \<noteq> None"
    "extractTextContent plainCard ''title'' = Some JNull"
    "extractTextContent plainCard ''content'' = Some JNull"
    "extractTextContent plainCard ''subtitle'' = Some JNull"
    by code_simp+
  from s(1) obtain ps where ps: "extractComponentProperties emptySelect ''Select'' = Some ps"
    by blast
  from d(1) obtain pd where pd: "extractComponentProperties datePicker ''DatePicker'' = Some pd"
    by blast
  from i(1) obtain pi' where pi: "extractComponentProperties plainInput ''Input'' = Some pi'"
    by blast
  from c(1) obtain pc where pc: "extractComponentProperties plainCard ''Card'' = Some pc"
    by blast
  from unmatched_fields_are_null[of emptySelect] ps s(2,3)
  have 1: "map_of ps ''options'' = Some JNull \<and>
      map_of ps ''label'' = Some (JStr ''Select an option'')" by blast
  from unmatched_fields_are_null[of datePicker] pd d(2)
  have 2: "map_of pd ''label'' = Some (JStr ''Choose a date'')" by blast
  from unmatched_fields_are_null[of plainInput] pi i(2,3,4)
  have 3: "map_of pi' ''label'' = Some JNull \<and> map_of pi' ''placeholder'' = Some JNull"
    by blast
  from unmatched_fields_are_null[of plainCard] pc c(2,3,4)
  have 4: "map_of pc ''title'' = Some JNull \<and> map_of pc ''content'' = Some JNull \<and>
      map_of pc ''subtitle'' = None" by blast
  from ps pd pi pc 1 2 3 4 show ?thesis by blast
qed


section \<open>Failure of the analysis\<close>

text \<open>
  A walk that returns has read the name of every frame, instance and component it
  visited.
\<close>

lemma nodesOf_unfold:
  "nodesOf n = n # (case children n of None \<Rightarrow> [] | Some kids \<Rightarrow> concat (map nodesOf kids))"
  by (cases n rule: nodesOf.cases) simp_all

lemma detect_Some_named: "detectComponentType n = Some t \<Longrightarrow> named n"
  by (auto simp: detectComponentType_def nameLower_def named_def split: bind_splits)

lemma candidate_Some_named:
  assumes "isComponentCandidate n = Some cand"
    and "(if cand then map_option f (buildComponent n) else Some comps) = Some comps1"
    and "kind n = Some ''FRAME'' \<or> kind n = Some ''INSTANCE'' \<or> kind n = Some ''COMPONENT''"
  shows "named n"
proof (cases "kind n = Some ''FRAME''")
  case True
  with assms(1) show ?thesis
    by (auto simp: isComponentCandidate_def nameLower_def named_def split: bind_splits)
next
  case False
  with assms(3) have "kind n = Some ''INSTANCE'' \<or> kind n = Some ''COMPONENT''" by simp
  with assms(1) have "cand" by (auto simp: isComponentCandidate_def)
  with assms(2) obtain c where "buildComponent n = Some c" by auto
  then obtain t where "detectComponentType n = Some t"
    by (auto simp: buildComponent_def split: bind_splits)
  then show ?thesis by (rule detect_Some_named)
qed

lemma traverse_Some_named:
  "traverseFigmaNodes n comps fc = Some comps' \<Longrightarrow>
     \<forall>m \<in> set (nodesOf n). needsName m \<longrightarrow> named m"
  "forEachChild ns comps fc = Some comps' \<Longrightarrow>
     \<forall>k \<in> set ns. \<forall>m \<in> set (nodesOf k). needsName m \<longrightarrow> named m"
proof (induction n comps fc and ns comps fc arbitrary: comps' and comps'
    rule: traverseFigmaNodes_forEachChild.induct)
  case (1 a cs components frameCount)
  from "1.prems" obtain cand comps1 where
    c: "isComponentCandidate (Node a cs) = Some cand"
    and p: "(if cand then map_option (\<lambda>c. components @ [c]) (buildComponent (Node a cs))
             else Some components) = Some comps1"
    and r: "(case cs of None \<Rightarrow> Some comps1
             | Some kids \<Rightarrow> forEachChild kids comps1
                 (if nodeType a = Some ''FRAME'' \<or> nodeType a = Some ''GROUP''
                  then frameCount + 1 else frameCount)) = Some comps'"
    by (auto split: bind_splits simp: Let_def)
  have self: "needsName (Node a cs) \<longrightarrow> named (Node a cs)"
    using candidate_Some_named[OF c p] by (simp add: needsName_def)
  show ?case
  proof (cases cs)
    case None
    with self show ?thesis by simp
  next
    case (Some kids)
    with r have "forEachChild kids comps1
                 (if nodeType a = Some ''FRAME'' \<or> nodeType a = Some ''GROUP''
                  then frameCount + 1 else frameCount) = Some comps'" by simp
    from "1.IH"[OF c p refl Some this] self Some show ?thesis by auto
  qed
next
  case (2 components frameCount)
  then show ?case by simp
next
  case (3 child rest components frameCount)
  then show ?case by (auto split: bind_splits)
qed


text \<open>
  Nothing but a missing name throws: on a node that has a name and whose children have
  names, every extraction returns.
\<close>

lemma someM_total: "\<forall>x \<in> set xs. p x \<noteq> None \<Longrightarrow> someM p xs \<noteq> None"
  by (induction xs) (auto split: option.splits)

lemma findM_total: "\<forall>x \<in> set xs. p x \<noteq> None \<Longrightarrow> findM p xs \<noteq> None"
  by (induction xs) (auto split: option.splits)

lemma filterM_total: "\<forall>x \<in> set xs. p x \<noteq> None \<Longrightarrow> filterM p xs \<noteq> None"
  by (induction xs) (auto split: option.splits)

lemma filterM_subset: "filterM p xs = Some ys \<Longrightarrow> set ys \<subseteq> set xs"
  by (induction xs arbitrary: ys) (auto split: option.splits if_splits)

lemma mapM_total: "\<forall>x \<in> set xs. f x \<noteq> None \<Longrightarrow> mapM f xs \<noteq> None"
  by (induction xs) (auto split: option.splits)

lemma named_nameLower: "named n \<Longrightarrow> \<exists>nl. nameLower n = Some nl"
  by (auto simp: named_def nameLower_def)

lemma kids_named: "namedKids n \<Longrightarrow> children n = Some cs \<Longrightarrow> \<forall>c \<in> set cs. named c"
  by (simp add: namedKids_def list_all_iff)

lemma isComponentCandidate_total: "named n \<Longrightarrow> isComponentCandidate n \<noteq> None"
  by (auto simp: isComponentCandidate_def dest!: named_nameLower)

lemma hasButtonLikeStructure_total: "named n \<Longrightarrow> hasButtonLikeStructure n \<noteq> None"
  by (auto simp: hasButtonLikeStructure_def Let_def dest!: named_nameLower)

lemma hasInputFieldStructure_total:
  assumes "namedKids n"
  shows "hasInputFieldStructure n \<noteq> None"
proof (cases "children n")
  case None
  then show ?thesis by (simp add: hasInputFieldStructure_def)
next
  case (Some cs)
  from kids_named[OF assms Some] have nm: "\<forall>c \<in> set cs. \<exists>nl. nameLower c = Some nl"
    by (auto dest: named_nameLower)
  have 1: "someM (\<lambda>child.
              if kind child = Some ''TEXT'' then
                do {
                  nl \<leftarrow> nameLower child;
                  Some (str_includes nl ''label'' \<or>
                        (case characters (attrs child) of
                           None \<Rightarrow> False
                         | Some s \<Rightarrow> length s < 30))
                }
              else Some False) cs \<noteq> None"
    by (rule someM_total) (use nm in auto)
  have 2: "someM (\<lambda>child.
              if kind child = Some ''RECTANGLE'' then Some True
              else if kind child = Some ''FRAME'' then
                do { nl \<leftarrow> nameLower child; Some (str_includes nl ''input'') }
              else Some False) cs \<noteq> None"
    by (rule someM_total) (use nm in auto)
  from 1 2 Some show ?thesis
    by (auto simp: hasInputFieldStructure_def)
qed

lemma detectComponentType_total:
  "named n \<Longrightarrow> namedKids n \<Longrightarrow> detectComponentType n \<noteq> None"
  using hasButtonLikeStructure_total[of n] hasInputFieldStructure_total[of n]
  by (auto simp: detectComponentType_def structuralFallback_def split: option.splits
      dest!: named_nameLower)

lemma determineButtonVariant_total:
  assumes "named n"
  shows "determineButtonVariant n \<noteq> None"
proof -
  from assms obtain nl where "nameLower n = Some nl" by (blast dest: named_nameLower)
  then show ?thesis by (auto simp: determineButtonVariant_def Let_def split: option.split)
qed

lemma determineColorTheme_total:
  assumes "named n"
  shows "determineColorTheme n \<noteq> None"
proof -
  from assms obtain nl where "nameLower n = Some nl" by (blast dest: named_nameLower)
  then show ?thesis by (auto simp: determineColorTheme_def split: option.split)
qed

lemma isNodeDisabled_total:
  assumes "named n"
  shows "isNodeDisabled n \<noteq> None"
proof -
  from assms obtain nl where "nameLower n = Some nl" by (blast dest: named_nameLower)
  then show ?thesis by (auto simp: isNodeDisabled_def split: option.split)
qed

lemma determineInputAppearance_total:
  assumes "named n"
  shows "determineInputAppearance n \<noteq> None"
proof -
  from assms obtain nl where "nameLower n = Some nl" by (blast dest: named_nameLower)
  then show ?thesis by (auto simp: determineInputAppearance_def split: option.split)
qed

lemma hasChildIcon_total:
  assumes "namedKids n"
  shows "hasChildIcon n \<noteq> None"
proof (cases "children n")
  case None
  then show ?thesis by (simp add: hasChildIcon_def)
next
  case (Some cs)
  from kids_named[OF assms Some] have nm: "\<forall>c \<in> set cs. \<exists>nl. nameLower c = Some nl"
    by (auto dest: named_nameLower)
  show ?thesis
    unfolding hasChildIcon_def Some option.case
    by (rule someM_total) (use nm in auto)
qed

lemma case_chain_total:
  "(case a of
      Some s \<Rightarrow> Some (g s)
    | None \<Rightarrow>
        (case b of
           Some v \<Rightarrow> Some v
         | None \<Rightarrow>
             (case c of
                Some v \<Rightarrow> Some v
              | None \<Rightarrow> (case d of Some v \<Rightarrow> Some v | None \<Rightarrow> Some e)))) \<noteq> None"
  by (simp split: option.split)

lemma extractTextContent_total:
  assumes "namedKids n"
  shows "extractTextContent n purpose \<noteq> None"
proof (cases "children n")
  case None
  then show ?thesis by (simp add: extractTextContent_def)
next
  case (Some cs)
  from kids_named[OF assms Some] have nm: "\<forall>c \<in> set cs. \<exists>nl. nameLower c = Some nl"
    by (auto dest: named_nameLower)
  have "findM (\<lambda>child.
              if kind child = Some ''TEXT'' then
                do { nl \<leftarrow> nameLower child; Some (str_includes nl (toLowerCase purpose)) }
              else Some False) cs \<noteq> None"
    by (rule findM_total) (use nm in auto)
  then obtain tb where "findM (\<lambda>child.
              if kind child = Some ''TEXT'' then
                do { nl \<leftarrow> nameLower child; Some (str_includes nl (toLowerCase purpose)) }
              else Some False) cs = Some tb" by blast
  then show ?thesis
    unfolding extractTextContent_def Some option.case
    by (simp only: bind.bind_lunit case_chain_total not_False_eq_True)
qed

lemma isInputRequired_total:
  assumes "named n" "namedKids n"
  shows "isInputRequired n \<noteq> None"
proof (cases "children n")
  case None
  with assms(1) show ?thesis by (auto simp: isInputRequired_def dest!: named_nameLower)
next
  case (Some cs)
  from kids_named[OF assms(2) Some] have nm: "\<forall>c \<in> set cs. \<exists>nl. nameLower c = Some nl"
    by (auto dest: named_nameLower)
  have "someM (\<lambda>child.
                if kind child = Some ''TEXT'' \<and>
                   (case characters (attrs child) of
                      None \<Rightarrow> False
                    | Some s \<Rightarrow> str_includes s ''*'')
                then Some True
                else
                  do {
                    cl \<leftarrow> nameLower child;
                    Some (str_includes cl ''required'' \<or> str_includes cl ''asterisk'')
                  }) cs \<noteq> None"
    by (rule someM_total) (use nm in auto)
  with assms(1) Some show ?thesis
    by (auto simp: isInputRequired_def dest!: named_nameLower)
qed

lemma hasActionButtons_total:
  assumes "namedKids n"
  shows "hasActionButtons n \<noteq> None"
proof (cases "children n")
  case None
  then show ?thesis by (simp add: hasActionButtons_def)
next
  case (Some cs)
  from kids_named[OF assms Some] have nm: "\<forall>c \<in> set cs. \<exists>nl. nameLower c = Some nl"
    by (auto dest: named_nameLower)
  have 1: "findM (\<lambda>child.
              if kind child = Some ''FRAME'' \<or> kind child = Some ''GROUP'' then
                do {
                  cl \<leftarrow> nameLower child;
                  Some (str_includes cl ''action'' \<or> str_includes cl ''button'')
                }
              else Some False) cs \<noteq> None"
    by (rule findM_total) (use nm in auto)
  have 2: "someM (\<lambda>child.
                if kind child = Some ''INSTANCE'' then
                  if (case componentId (attrs child) of
                        None \<Rightarrow> False
                      | Some cid \<Rightarrow> str_includes cid ''button'')
                  then Some True
                  else do { cl \<leftarrow> nameLower child; Some (str_includes cl ''button'') }
                else Some False) cs \<noteq> None"
    by (rule someM_total) (use nm in auto)
  from 1 2 show ?thesis
    unfolding hasActionButtons_def Some option.case by auto
qed

lemma optionText_total: "named opt \<Longrightarrow> optionText opt \<noteq> None"
  by (auto simp: optionText_def named_def split: option.splits)

lemma extractSelectOptions_total:
  assumes "namedKids n"
  shows "extractSelectOptions n \<noteq> None"
proof (cases "children n")
  case None
  then show ?thesis by (simp add: extractSelectOptions_def)
next
  case (Some cs)
  from kids_named[OF assms Some] have nmd: "\<forall>c \<in> set cs. named c" .
  then have nm: "\<forall>c \<in> set cs. \<exists>nl. nameLower c = Some nl"
    by (auto dest: named_nameLower)
  let ?p = "\<lambda>child. do {
                cl \<leftarrow> nameLower child;
                Some (str_includes cl ''option'' \<or> str_includes cl ''item'')
              }"
  have "filterM ?p cs \<noteq> None"
    by (rule filterM_total) (use nm in auto)
  then obtain ys where ys: "filterM ?p cs = Some ys" by blast
  from filterM_subset[OF ys] nmd have "\<forall>y \<in> set ys. optionText y \<noteq> None"
    using optionText_total by blast
  then have "mapM optionText ys \<noteq> None" by (rule mapM_total)
  with ys show ?thesis
    unfolding extractSelectOptions_def Some option.case by auto
qed


lemma orElse_total: "alt \<noteq> None \<Longrightarrow> orElse v alt \<noteq> None"
  by (simp add: orElse_def)

lemma extractComponentProperties_total:
  assumes "named n" "namedKids n"
  shows "extractComponentProperties n t \<noteq> None"
proof -
  obtain variant color disabled icon appearance reqd actions opts where
    "determineButtonVariant n = Some variant" "determineColorTheme n = Some color"
    "isNodeDisabled n = Some disabled" "hasChildIcon n = Some icon"
    "determineInputAppearance n = Some appearance" "isInputRequired n = Some reqd"
    "hasActionButtons n = Some actions" "extractSelectOptions n = Some opts"
    using determineButtonVariant_total[OF assms(1)] determineColorTheme_total[OF assms(1)]
      isNodeDisabled_total[OF assms(1)] hasChildIcon_total[OF assms(2)]
      determineInputAppearance_total[OF assms(1)] isInputRequired_total[OF assms]
      hasActionButtons_total[OF assms(2)] extractSelectOptions_total[OF assms(2)]
    by blast
  moreover obtain label placeholder hint title subtitle content where
    "extractTextContent n ''label'' = Some label"
    "extractTextContent n ''placeholder'' = Some placeholder"
    "extractTextContent n ''hint'' = Some hint"
    "extractTextContent n ''title'' = Some title"
    "extractTextContent n ''subtitle'' = Some subtitle"
    "extractTextContent n ''content'' = Some content"
    using extractTextContent_total[OF assms(2)] by (metis not_None_eq)
  ultimately show ?thesis
    by (simp add: extractComponentProperties_def orElse_def)
qed

lemma buildComponent_total:
  assumes "named n" "namedKids n"
  shows "buildComponent n \<noteq> None"
proof -
  from detectComponentType_total[OF assms] obtain t where "detectComponentType n = Some t"
    by blast
  moreover from extractComponentProperties_total[OF assms, of t]
  obtain ps where "extractComponentProperties n t = Some ps" by blast
  ultimately show ?thesis by (simp add: buildComponent_def)
qed

lemma namedKids_of_nodes:
  assumes "\<forall>m \<in> set (nodesOf n). named m"
  shows "named n" and "namedKids n"
proof -
  show "named n" using assms by (subst (asm) nodesOf_unfold) simp
  show "namedKids n"
  proof (cases "children n")
    case None
    then show ?thesis by (simp add: namedKids_def)
  next
    case (Some kids)
    have "named k" if "k \<in> set kids" for k
    proof -
      have "k \<in> set (nodesOf k)" by (subst nodesOf_unfold) simp
      with that Some assms show ?thesis by (subst (asm) nodesOf_unfold) auto
    qed
    with Some show ?thesis by (simp add: namedKids_def list_all_iff)
  qed
qed

lemma traverse_total:
  "\<forall>m \<in> set (nodesOf n). named m \<Longrightarrow> traverseFigmaNodes n comps fc \<noteq> None"
  "\<forall>k \<in> set ns. \<forall>m \<in> set (nodesOf k). named m \<Longrightarrow> forEachChild ns comps fc \<noteq> None"
proof (induction n comps fc and ns comps fc rule: traverseFigmaNodes_forEachChild.induct)
  case (1 a cs components frameCount)
  let ?n = "Node a cs"
  from namedKids_of_nodes[OF "1.prems"] have nk: "named ?n" "namedKids ?n" .
  from isComponentCandidate_total[OF nk(1)] obtain cand
    where c: "isComponentCandidate ?n = Some cand" by blast
  from buildComponent_total[OF nk] obtain b where b: "buildComponent ?n = Some b" by blast
  define comps1 where "comps1 = (if cand then components @ [b] else components)"
  have p: "(if cand then map_option (\<lambda>c. components @ [c]) (buildComponent ?n)
           else Some components) = Some comps1"
    by (simp add: comps1_def b)
  show ?case
  proof (cases cs)
    case None
    with c p b show ?thesis by auto
  next
    case (Some kids)
    from "1.prems" Some have "\<forall>k \<in> set kids. \<forall>m \<in> set (nodesOf k). named m" by auto
    from "1.IH"[OF c p refl Some this] c p b Some show ?thesis by auto
  qed
next
  case (2 components frameCount)
  then show ?case by simp
next
  case (3 child rest components frameCount)
  from "3.prems" have "traverseFigmaNodes child components frameCount \<noteq> None"
    by (intro "3.IH"(1)) simp
  then obtain comps' where t: "traverseFigmaNodes child components frameCount = Some comps'"
    by blast
  from "3.prems" have "forEachChild rest comps' frameCount \<noteq> None"
    by (intro "3.IH"(2)[OF t]) simp
  with t show ?case by simp
qed


text \<open>
  Where a loop over the children throws. \<open>readsUnnamed\<close> is: some child whose name the
  loop reads has no name, and no child before it ends the loop.
\<close>

lemma readsUnnamed_iff:
  "readsUnnamed reads stops kids =
     (\<exists>ys c zs. kids = ys @ c # zs \<and> reads c \<and> \<not> named c \<and> (\<forall>y \<in> set ys. \<not> stops y))"
proof (induction kids)
  case Nil
  then show ?case by simp
next
  case (Cons k kids)
  show ?case
  proof
    assume "readsUnnamed reads stops (k # kids)"
    then consider "reads k \<and> \<not> named k" | "\<not> stops k \<and> readsUnnamed reads stops kids" by auto
    then show "\<exists>ys c zs. k # kids = ys @ c # zs \<and> reads c \<and> \<not> named c \<and> (\<forall>y \<in> set ys. \<not> stops y)"
    proof cases
      case 1
      then have "k # kids = [] @ k # kids \<and> reads k \<and> \<not> named k \<and> (\<forall>y \<in> set []. \<not> stops y)"
        by simp
      then show ?thesis by blast
    next
      case 2
      with Cons.IH obtain ys c zs where "kids = ys @ c # zs" "reads c" "\<not> named c"
        "\<forall>y \<in> set ys. \<not> stops y" by blast
      with 2 have "k # kids = (k # ys) @ c # zs \<and> reads c \<and> \<not> named c \<and>
          (\<forall>y \<in> set (k # ys). \<not> stops y)" by simp
      then show ?thesis by blast
    qed
  next
    assume "\<exists>ys c zs. k # kids = ys @ c # zs \<and> reads c \<and> \<not> named c \<and> (\<forall>y \<in> set ys. \<not> stops y)"
    then obtain ys c zs where e: "k # kids = ys @ c # zs" and r: "reads c" "\<not> named c"
      and s: "\<forall>y \<in> set ys. \<not> stops y" by blast
    show "readsUnnamed reads stops (k # kids)"
    proof (cases ys)
      case Nil
      with e r show ?thesis by simp
    next
      case (Cons y ys')
      with e have "k = y" "kids = ys' @ c # zs" by simp_all
      with s Cons r Cons.IH show ?thesis by auto
    qed
  qed
qed

lemma someM_None_iff:
  assumes "\<And>c. (cb c = None) = (reads c \<and> \<not> named c)"
    and "\<And>c. cb c \<noteq> None \<Longrightarrow> cb c = Some (stops c)"
  shows "(someM cb kids = None) = readsUnnamed reads stops kids"
proof (induction kids)
  case Nil
  then show ?case by simp
next
  case (Cons k kids)
  show ?case
  proof (cases "cb k")
    case None
    with assms(1)[of k] show ?thesis by simp
  next
    case (Some b)
    with assms(2)[of k] have "b = stops k" by simp
    moreover from Some assms(1)[of k] have "\<not> (reads k \<and> \<not> named k)" by simp
    ultimately show ?thesis using Some Cons.IH by auto
  qed
qed

lemma findM_None_iff:
  assumes "\<And>c. (cb c = None) = (reads c \<and> \<not> named c)"
    and "\<And>c. cb c \<noteq> None \<Longrightarrow> cb c = Some (stops c)"
  shows "(findM cb kids = None) = readsUnnamed reads stops kids"
proof (induction kids)
  case Nil
  then show ?case by simp
next
  case (Cons k kids)
  show ?case
  proof (cases "cb k")
    case None
    with assms(1)[of k] show ?thesis by simp
  next
    case (Some b)
    with assms(2)[of k] have "b = stops k" by simp
    moreover from Some assms(1)[of k] have "\<not> (reads k \<and> \<not> named k)" by simp
    ultimately show ?thesis using Some Cons.IH by auto
  qed
qed

lemma findM_Some_None_iff:
  assumes "\<And>c. cb c \<noteq> None \<Longrightarrow> cb c = Some (stops c)"
    and "findM cb kids \<noteq> None"
  shows "(findM cb kids = Some None) = (\<not> list_ex stops kids)"
  using assms(2)
proof (induction kids)
  case Nil
  then show ?case by simp
next
  case (Cons k kids)
  from Cons.prems obtain b where b: "cb k = Some b" by (cases "cb k") auto
  with assms(1)[of k] have "b = stops k" by simp
  with b Cons show ?case by (cases "stops k") auto
qed

lemma filterM_None_iff: "(filterM cb kids = None) = list_ex (\<lambda>c. cb c = None) kids"
  by (induction kids) (auto split: option.splits)

lemma nameLower_None: "(nameLower c = None) = (\<not> named c)"
  by (simp add: nameLower_def named_def)

lemma named_iff: "named c = (\<exists>nl. nameLower c = Some nl)"
  by (auto simp: nameLower_def named_def)

lemma nameLower_has:
  "nameLower c = Some nl \<Longrightarrow> str_includes nl s = nameHas s c"
  by (auto simp: nameLower_def nameHas_def str_includes_sublist)


lemma nameHas_None: "nameLower c = None \<Longrightarrow> nameHas s c = False"
  by (auto simp: nameLower_def nameHas_def)

lemma nameHas_Some: "nameLower c = Some nl \<Longrightarrow> nameHas s c = str_includes nl s"
  by (auto simp: nameLower_def nameHas_def str_includes_sublist)

lemma named_None: "nameLower c = None \<Longrightarrow> named c = False"
  by (simp add: named_iff)

lemma named_Some: "nameLower c = Some nl \<Longrightarrow> named c = True"
  by (simp add: named_iff)

lemmas name_cases = nameHas_None nameHas_Some named_None named_Some

lemma kidsOf_Some: "children m = Some kids \<Longrightarrow> kidsOf m = kids"
  by (simp add: kidsOf_def)

lemma kidsOf_None: "children m = None \<Longrightarrow> kidsOf m = []"
  by (simp add: kidsOf_def)

lemma hasChildIcon_None:
  "(hasChildIcon m = None) =
     readsUnnamed (\<lambda>c. kind c \<noteq> Some ''VECTOR'') iconLike (kidsOf m)"
proof (cases "children m")
  case None
  then show ?thesis by (simp add: hasChildIcon_def kidsOf_None)
next
  case (Some kids)
  let ?cb = "\<lambda>child.
            if kind child = Some ''VECTOR'' then Some True
            else
              do {
                nl \<leftarrow> nameLower child;
                Some (str_includes nl ''icon'' \<or>
                      (truthyNum (nodeWidth (attrs child)) \<and> truthyNum (nodeHeight (attrs child)) \<and>
                       nodeWidth (attrs child) = nodeHeight (attrs child) \<and>
                       ltNum (nodeWidth (attrs child)) (Some 24)))
              }"
  have r: "(?cb c = None) = (kind c \<noteq> Some ''VECTOR'' \<and> \<not> named c)" for c
    by (cases "nameLower c") (auto simp: name_cases split: if_splits)
  have st: "?cb c \<noteq> None \<Longrightarrow> ?cb c = Some (iconLike c)" for c
    by (cases "nameLower c") (auto simp: name_cases iconLike_def split: if_splits)
  show ?thesis
    unfolding hasChildIcon_def Some option.case kidsOf_Some[OF Some]
    by (rule someM_None_iff[OF r st])
qed

lemma extractTextContent_None:
  "(extractTextContent m purpose = None) = readsUnnamed isText (textFor purpose) (kidsOf m)"
proof (cases "children m")
  case None
  then show ?thesis by (simp add: extractTextContent_def kidsOf_None)
next
  case (Some kids)
  let ?cb = "\<lambda>child.
              if kind child = Some ''TEXT'' then
                do { nl \<leftarrow> nameLower child; Some (str_includes nl (toLowerCase purpose)) }
              else Some False"
  have r: "(?cb c = None) = (isText c \<and> \<not> named c)" for c
    by (cases "nameLower c") (auto simp: name_cases isText_def split: if_splits)
  have st: "?cb c \<noteq> None \<Longrightarrow> ?cb c = Some (textFor purpose c)" for c
    by (cases "nameLower c") (auto simp: name_cases isText_def textFor_def split: if_splits)
  have l: "(findM ?cb kids = None) = readsUnnamed isText (textFor purpose) kids"
    by (rule findM_None_iff[OF r st])
  show ?thesis
  proof (cases "findM ?cb kids")
    case None
    with l show ?thesis
      unfolding extractTextContent_def Some option.case kidsOf_Some[OF Some] by simp
  next
    case (Some tb)
    then have "extractTextContent m purpose \<noteq> None"
      unfolding extractTextContent_def \<open>children m = Some kids\<close> option.case
      by (simp only: bind.bind_lunit case_chain_total not_False_eq_True)
    with Some l show ?thesis by (simp add: kidsOf_Some[OF \<open>children m = Some kids\<close>])
  qed
qed

lemma extractSelectOptions_None:
  "(extractSelectOptions m = None) = (\<not> list_all named (kidsOf m))"
proof (cases "list_all named (kidsOf m)")
  case True
  then have "namedKids m" by (simp add: namedKids_def kidsOf_def split: option.splits)
  from extractSelectOptions_total[OF this] True show ?thesis by simp
next
  case False
  then obtain kids where k: "children m = Some kids" and "\<not> list_all named kids"
    by (auto simp: kidsOf_def split: option.splits)
  then obtain x where x: "x \<in> set kids" "nameLower x = None"
    by (auto simp: list_all_iff named_iff)
  let ?cb = "\<lambda>child. do {
                cl \<leftarrow> nameLower child;
                Some (str_includes cl ''option'' \<or> str_includes cl ''item'')
              }"
  from x(2) have "?cb x = None" by simp
  with x(1) have "list_ex (\<lambda>c. ?cb c = None) kids" unfolding list_ex_iff by blast
  then have "filterM ?cb kids = None" by (simp only: filterM_None_iff)
  then have "extractSelectOptions m = None"
    unfolding extractSelectOptions_def k option.case by simp
  with False show ?thesis by simp
qed

lemma hasInputFieldStructure_None:
  "(hasInputFieldStructure m = None) =
     (readsUnnamed isText labelLike (kidsOf m) \<or>
      readsUnnamed (\<lambda>c. kind c = Some ''FRAME'') inputArea (kidsOf m))"
proof (cases "children m")
  case None
  then show ?thesis by (simp add: hasInputFieldStructure_def kidsOf_None)
next
  case (Some kids)
  let ?l = "\<lambda>child.
              if kind child = Some ''TEXT'' then
                do {
                  nl \<leftarrow> nameLower child;
                  Some (str_includes nl ''label'' \<or>
                        (case characters (attrs child) of
                           None \<Rightarrow> False
                         | Some s \<Rightarrow> length s < 30))
                }
              else Some False"
  let ?a = "\<lambda>child.
              if kind child = Some ''RECTANGLE'' then Some True
              else if kind child = Some ''FRAME'' then
                do { nl \<leftarrow> nameLower child; Some (str_includes nl ''input'') }
              else Some False"
  have lr: "(?l c = None) = (isText c \<and> \<not> named c)" for c
    by (cases "nameLower c") (auto simp: name_cases isText_def split: if_splits)
  have ls: "?l c \<noteq> None \<Longrightarrow> ?l c = Some (labelLike c)" for c
    by (cases "nameLower c") (auto simp: name_cases isText_def labelLike_def charactersHave_def split: if_splits)
  have ar: "(?a c = None) = (kind c = Some ''FRAME'' \<and> \<not> named c)" for c
    by (cases "nameLower c") (auto simp: name_cases split: if_splits)
  have as: "?a c \<noteq> None \<Longrightarrow> ?a c = Some (inputArea c)" for c
    by (cases "nameLower c") (auto simp: name_cases inputArea_def split: if_splits)
  have l: "(someM ?l kids = None) = readsUnnamed isText labelLike kids"
    by (rule someM_None_iff[OF lr ls])
  have a: "(someM ?a kids = None) = readsUnnamed (\<lambda>c. kind c = Some ''FRAME'') inputArea kids"
    by (rule someM_None_iff[OF ar as])
  have "(hasInputFieldStructure m = None) = (someM ?l kids = None \<or> someM ?a kids = None)"
    unfolding hasInputFieldStructure_def Some option.case
    by (cases "someM ?l kids"; cases "someM ?a kids") simp_all
  with l a show ?thesis by (simp add: kidsOf_Some[OF Some])
qed

lemma isInputRequired_None:
  "(isInputRequired m = None) =
     (\<not> named m \<or>
      (\<not> nameHas ''required'' m \<and>
       readsUnnamed (\<lambda>c. \<not> starText c) requiredMark (kidsOf m)))"
proof (cases "nameLower m")
  case None
  then show ?thesis by (simp add: isInputRequired_def name_cases)
next
  case (Some nl)
  show ?thesis
  proof (cases "children m")
    case None
    with Some show ?thesis by (auto simp: isInputRequired_def kidsOf_None name_cases)
  next
    case k: (Some kids)
    let ?cb = "\<lambda>child.
                if kind child = Some ''TEXT'' \<and>
                   (case characters (attrs child) of
                      None \<Rightarrow> False
                    | Some s \<Rightarrow> str_includes s ''*'')
                then Some True
                else
                  do {
                    cl \<leftarrow> nameLower child;
                    Some (str_includes cl ''required'' \<or> str_includes cl ''asterisk'')
                  }"
    have sx: "(kind c = Some ''TEXT'' \<and>
                   (case characters (attrs c) of
                      None \<Rightarrow> False
                    | Some s \<Rightarrow> str_includes s ''*'')) = starText c" for c
      by (simp add: starText_def isText_def charactersHave_def str_includes_sublist
          split: option.splits)
    have r: "(?cb c = None) = (\<not> starText c \<and> \<not> named c)" for c
      unfolding sx by (cases "nameLower c") (auto simp: name_cases split: if_splits)
    have st: "?cb c \<noteq> None \<Longrightarrow> ?cb c = Some (requiredMark c)" for c
      unfolding sx by (cases "nameLower c") (auto simp: name_cases requiredMark_def split: if_splits)
    have l: "(someM ?cb kids = None) = readsUnnamed (\<lambda>c. \<not> starText c) requiredMark kids"
      by (rule someM_None_iff[OF r st])
    show ?thesis
      using Some l
      by (simp add: isInputRequired_def k kidsOf_Some[OF k] name_cases)
  qed
qed

lemma hasActionButtons_None:
  "(hasActionButtons m = None) =
     (readsUnnamed isFrameOrGroup actionsFrame (kidsOf m) \<or>
      (\<not> list_ex actionsFrame (kidsOf m) \<and>
       readsUnnamed (\<lambda>c. kind c = Some ''INSTANCE'' \<and> \<not> buttonIdInstance c) buttonInstance
         (kidsOf m)))"
proof (cases "children m")
  case None
  then show ?thesis by (simp add: hasActionButtons_def kidsOf_None)
next
  case (Some kids)
  let ?f = "\<lambda>child.
              if kind child = Some ''FRAME'' \<or> kind child = Some ''GROUP'' then
                do {
                  cl \<leftarrow> nameLower child;
                  Some (str_includes cl ''action'' \<or> str_includes cl ''button'')
                }
              else Some False"
  let ?b = "\<lambda>child.
                if kind child = Some ''INSTANCE'' then
                  if (case componentId (attrs child) of
                        None \<Rightarrow> False
                      | Some cid \<Rightarrow> str_includes cid ''button'')
                  then Some True
                  else do { cl \<leftarrow> nameLower child; Some (str_includes cl ''button'') }
                else Some False"
  have fr: "(?f c = None) = (isFrameOrGroup c \<and> \<not> named c)" for c
    by (cases "nameLower c") (auto simp: name_cases isFrameOrGroup_def split: if_splits)
  have fs: "?f c \<noteq> None \<Longrightarrow> ?f c = Some (actionsFrame c)" for c
    by (cases "nameLower c") (auto simp: name_cases actionsFrame_def isFrameOrGroup_def split: if_splits)
  have bx: "(case componentId (attrs c) of
                        None \<Rightarrow> False
                      | Some cid \<Rightarrow> str_includes cid ''button'')
            = (kind c = Some ''INSTANCE'' \<longrightarrow> buttonIdInstance c)" if "kind c = Some ''INSTANCE''" for c
    using that by (simp add: buttonIdInstance_def str_includes_sublist split: option.splits)
  have br: "(?b c = None) = ((kind c = Some ''INSTANCE'' \<and> \<not> buttonIdInstance c) \<and> \<not> named c)" for c
    by (cases "nameLower c"; cases "kind c = Some ''INSTANCE''")
       (auto simp: name_cases bx split: if_splits)
  have bs: "?b c \<noteq> None \<Longrightarrow> ?b c = Some (buttonInstance c)" for c
    by (cases "nameLower c"; cases "kind c = Some ''INSTANCE''")
       (auto simp: name_cases bx buttonInstance_def split: if_splits)
  have f: "(findM ?f kids = None) = readsUnnamed isFrameOrGroup actionsFrame kids"
    by (rule findM_None_iff[OF fr fs])
  have b: "(someM ?b kids = None) =
      readsUnnamed (\<lambda>c. kind c = Some ''INSTANCE'' \<and> \<not> buttonIdInstance c) buttonInstance kids"
    by (rule someM_None_iff[OF br bs])
  show ?thesis
  proof (cases "findM ?f kids")
    case None
    with f show ?thesis
      unfolding hasActionButtons_def Some option.case kidsOf_Some[OF Some] by simp
  next
    case found: (Some af)
    then have ne: "findM ?f kids \<noteq> None" by simp
    from findM_Some_None_iff[of ?f actionsFrame kids, OF fs ne] found
    have af: "(af = None) = (\<not> list_ex actionsFrame kids)" by simp
    from found f have nf: "\<not> readsUnnamed isFrameOrGroup actionsFrame kids" by simp
    show ?thesis
      unfolding hasActionButtons_def Some option.case kidsOf_Some[OF Some]
      using found af nf b by (cases af) simp_all
  qed
qed


lemma namedKids_kidsOf: "namedKids m = list_all named (kidsOf m)"
  by (simp add: namedKids_def kidsOf_def split: option.splits)

lemma hasButtonLikeStructure_named:
  "named m \<Longrightarrow> hasButtonLikeStructure m = Some False \<or> hasButtonLikeStructure m = Some True"
  using hasButtonLikeStructure_total[of m] by (cases "hasButtonLikeStructure m") auto

lemma structuralFallback_None:
  assumes "named m"
  shows "(structuralFallback m = None) =
     (hasButtonLikeStructure m = Some False \<and> hasInputFieldStructure m = None)"
  using hasButtonLikeStructure_named[OF assms]
  by (cases "hasInputFieldStructure m") (auto simp: structuralFallback_def)

lemma detectComponentType_None:
  "(detectComponentType m = None) =
     (\<not> named m \<or>
      (typeOfComponentId m = None \<and> (\<exists>nl. nameLower m = Some nl \<and> nameRule nl = None) \<and>
       hasButtonLikeStructure m = Some False \<and>
       (readsUnnamed isText labelLike (kidsOf m) \<or>
        readsUnnamed (\<lambda>c. kind c = Some ''FRAME'') inputArea (kidsOf m))))"
proof (cases "nameLower m")
  case None
  then show ?thesis by (simp add: detectComponentType_def name_cases)
next
  case (Some nl)
  then have nm: "named m" by (simp add: name_cases)
  show ?thesis
    using Some nm structuralFallback_None[OF nm]
    by (cases "typeOfComponentId m"; cases "nameRule nl")
       (simp_all add: detectComponentType_def hasInputFieldStructure_None)
qed

lemma props_Button_None:
  assumes "named m"
  shows "(extractComponentProperties m ''Button'' = None) =
     readsUnnamed (\<lambda>c. kind c \<noteq> Some ''VECTOR'') iconLike (kidsOf m)"
proof -
  obtain variant color disabled where
    "determineButtonVariant m = Some variant" "determineColorTheme m = Some color"
    "isNodeDisabled m = Some disabled"
    using determineButtonVariant_total[OF assms] determineColorTheme_total[OF assms]
      isNodeDisabled_total[OF assms] by blast
  then have "(extractComponentProperties m ''Button'' = None) = (hasChildIcon m = None)"
    by (cases "hasChildIcon m") (simp_all add: extractComponentProperties_def)
  then show ?thesis by (simp add: hasChildIcon_None)
qed

lemma props_DatePicker_None:
  assumes "named m"
  shows "(extractComponentProperties m ''DatePicker'' = None) =
     readsUnnamed isText (textFor ''label'') (kidsOf m)"
proof -
  obtain appearance where "determineInputAppearance m = Some appearance"
    using determineInputAppearance_total[OF assms] by blast
  then have "(extractComponentProperties m ''DatePicker'' = None) =
      (extractTextContent m ''label'' = None)"
    by (cases "extractTextContent m ''label''")
       (simp_all add: extractComponentProperties_def orElse_def)
  then show ?thesis by (simp add: extractTextContent_None)
qed

lemma props_Select_None:
  assumes "named m"
  shows "(extractComponentProperties m ''Select'' = None) = (\<not> list_all named (kidsOf m))"
proof -
  obtain appearance where a: "determineInputAppearance m = Some appearance"
    using determineInputAppearance_total[OF assms] by blast
  have "(extractComponentProperties m ''Select'' = None) =
      (extractTextContent m ''label'' = None \<or> extractSelectOptions m = None)"
    using a
    by (cases "extractTextContent m ''label''"; cases "extractSelectOptions m")
       (simp_all add: extractComponentProperties_def orElse_def)
  moreover have "extractTextContent m ''label'' = None \<Longrightarrow> \<not> list_all named (kidsOf m)"
    using extractTextContent_total[of m "''label''"] by (auto simp: namedKids_kidsOf)
  ultimately show ?thesis by (auto simp: extractSelectOptions_None)
qed

lemma props_Input_None:
  assumes "named m"
  shows "(extractComponentProperties m ''Input'' = None) =
     (readsUnnamed isText (textFor ''label'') (kidsOf m) \<or>
      readsUnnamed isText (textFor ''placeholder'') (kidsOf m) \<or>
      ((\<exists>v. extractTextContent m ''placeholder'' = Some v \<and> \<not> truthy v) \<and>
       readsUnnamed isText (textFor ''hint'') (kidsOf m)) \<or>
      (\<not> nameHas ''required'' m \<and>
       readsUnnamed (\<lambda>c. \<not> starText c) requiredMark (kidsOf m)))"
proof -
  obtain appearance where a: "determineInputAppearance m = Some appearance"
    using determineInputAppearance_total[OF assms] by blast
  have "(extractComponentProperties m ''Input'' = None) =
     (extractTextContent m ''label'' = None \<or>
      extractTextContent m ''placeholder'' = None \<or>
      ((\<exists>v. extractTextContent m ''placeholder'' = Some v \<and> \<not> truthy v) \<and>
       extractTextContent m ''hint'' = None) \<or>
      isInputRequired m = None)"
    using a
    by (cases "extractTextContent m ''label''"; cases "extractTextContent m ''placeholder''";
        cases "extractTextContent m ''hint''"; cases "isInputRequired m")
       (simp_all add: extractComponentProperties_def orElse_def)
  then show ?thesis using assms by (simp add: extractTextContent_None isInputRequired_None)
qed

lemma props_Card_None:
  "(extractComponentProperties m ''Card'' = None) =
     (readsUnnamed isText (textFor ''title'') (kidsOf m) \<or>
      readsUnnamed isText (textFor ''subtitle'') (kidsOf m) \<or>
      readsUnnamed isText (textFor ''content'') (kidsOf m) \<or>
      readsUnnamed isFrameOrGroup actionsFrame (kidsOf m) \<or>
      (\<not> list_ex actionsFrame (kidsOf m) \<and>
       readsUnnamed (\<lambda>c. kind c = Some ''INSTANCE'' \<and> \<not> buttonIdInstance c) buttonInstance
         (kidsOf m)))"
proof -
  have "(extractComponentProperties m ''Card'' = None) =
     (extractTextContent m ''title'' = None \<or> extractTextContent m ''subtitle'' = None \<or>
      extractTextContent m ''content'' = None \<or> hasActionButtons m = None)"
    by (cases "extractTextContent m ''title''"; cases "extractTextContent m ''subtitle''";
        cases "extractTextContent m ''content''"; cases "hasActionButtons m")
       (simp_all add: extractComponentProperties_def)
  then show ?thesis by (simp add: extractTextContent_None hasActionButtons_None)
qed

lemma props_other:
  "t \<notin> set [''Button'', ''Input'', ''Card'', ''DatePicker'', ''Select''] \<Longrightarrow>
   extractComponentProperties m t = Some []"
  by (simp add: extractComponentProperties_def)

lemma candidate_kinds:
  "isComponentCandidate m = Some True \<Longrightarrow> needsName m"
  by (auto simp: isComponentCandidate_def needsName_def split: if_splits)

lemma candidate_None: "(isComponentCandidate m = None) = (kind m = Some ''FRAME'' \<and> \<not> named m)"
  by (cases "nameLower m") (auto simp: isComponentCandidate_def name_cases)

lemma buildComponent_None:
  "(buildComponent m = None) =
     (detectComponentType m = None \<or>
      (\<exists>t. detectComponentType m = Some t \<and> extractComponentProperties m t = None))"
  by (cases "detectComponentType m") (auto simp: buildComponent_def split: bind_splits)

lemma visitFails_iff:
  "visitFails m =
     ((needsName m \<and> \<not> named m) \<or>
      (isComponentCandidate m = Some True \<and> named m \<and>
       (detectComponentType m = None \<or>
        (\<exists>t. detectComponentType m = Some t \<and> extractComponentProperties m t = None))))"
proof (cases "isComponentCandidate m")
  case None
  then show ?thesis
    using candidate_None[of m] by (auto simp: visitFails_def needsName_def)
next
  case (Some cand)
  show ?thesis
  proof (cases cand)
    case True
    with Some have nn: "needsName m" by (simp add: candidate_kinds)
    have "\<not> named m \<Longrightarrow> detectComponentType m = None"
      by (simp add: detectComponentType_None)
    with Some True nn show ?thesis
      by (auto simp: visitFails_def buildComponent_None)
  next
    case False
    with Some have "\<not> (needsName m \<and> \<not> named m)"
      by (auto simp: isComponentCandidate_def needsName_def named_iff
          split: if_splits bind_splits)
    with Some False show ?thesis by (simp add: visitFails_def)
  qed
qed

lemma visitFails_where:
  assumes "visitFails m"
  shows "needsName m \<and> (\<not> named m \<or> \<not> list_all named (kidsOf m))"
proof (cases "named m \<and> list_all named (kidsOf m)")
  case True
  then have "named m" "namedKids m"
    by (simp_all add: namedKids_def kidsOf_def split: option.splits)
  from buildComponent_total[OF this] isComponentCandidate_total[OF this(1)] assms
  show ?thesis by (auto simp: visitFails_def)
next
  case False
  moreover from assms have "needsName m"
    using candidate_None[of m] candidate_kinds[of m]
    by (cases "isComponentCandidate m") (auto simp: visitFails_def needsName_def)
  ultimately show ?thesis by blast
qed

lemma nodesOf_Node:
  "nodesOf (Node a cs) =
     Node a cs # (case cs of None \<Rightarrow> [] | Some kids \<Rightarrow> concat (map nodesOf kids))"
  by (cases cs) simp_all

lemma traverse_None_iff:
  "(traverseFigmaNodes n comps fc = None) = list_ex visitFails (nodesOf n)"
  "(forEachChild ns comps fc = None) = (\<exists>k \<in> set ns. list_ex visitFails (nodesOf k))"
proof (induction n comps fc and ns comps fc rule: traverseFigmaNodes_forEachChild.induct)
  case (1 a cs components frameCount)
  let ?n = "Node a cs"
  show ?case
  proof (cases "visitFails ?n")
    case True
    then have "traverseFigmaNodes ?n components frameCount = None"
      by (auto simp: visitFails_def split: option.splits)
    with True show ?thesis by (simp add: nodesOf_Node)
  next
    case False
    then obtain cand where c: "isComponentCandidate ?n = Some cand"
      and b: "cand \<longrightarrow> buildComponent ?n \<noteq> None"
      by (auto simp: visitFails_def split: option.splits)
    then obtain comps1 where p: "(if cand then map_option (\<lambda>c. components @ [c]) (buildComponent ?n)
           else Some components) = Some comps1"
      by (cases cand) auto
    show ?thesis
    proof (cases cs)
      case None
      with c p b False show ?thesis by auto
    next
      case (Some kids)
      from "1.IH"[OF c p refl Some]
      have "(forEachChild kids comps1
              (if nodeType a = Some ''FRAME'' \<or> nodeType a = Some ''GROUP''
               then frameCount + 1 else frameCount) = None) =
            (\<exists>k \<in> set kids. list_ex visitFails (nodesOf k))" .
      with c p b False Some show ?thesis
        by (auto simp: list_ex_iff)
    qed
  qed
next
  case (2 components frameCount)
  then show ?case by simp
next
  case (3 child rest components frameCount)
  show ?case
  proof (cases "traverseFigmaNodes child components frameCount")
    case None
    with "3.IH"(1) show ?thesis by simp
  next
    case (Some comps')
    with "3.IH"(1) have "\<not> list_ex visitFails (nodesOf child)" by simp
    with "3.IH"(2)[OF Some] Some show ?thesis by simp
  qed
qed

lemma analyze_fails_iff:
  "(analyzeFigmaComponents d = Inl FailedToAnalyze) =
     (document d = None \<or> (\<exists>tree. document d = Some tree \<and> list_ex visitFails (nodesOf tree)))"
proof (cases "document d")
  case None
  then show ?thesis by (simp add: analyzeFigmaComponents_def)
next
  case (Some tree)
  then show ?thesis
    using traverse_None_iff(1)[of tree "[]" 0]
    by (cases "traverseFigmaNodes tree [] 0") (simp_all add: analyzeFigmaComponents_def)
qed

text \<open>
  Claim C8, as the code has it. The code validates nothing and has no validation error of
  its own; it throws where it reads the name of a node that has none, and the
  \<^verbatim>\<open>catch\<close> block turns that into the error \<^verbatim>\<open>Failed to analyze Figma components\<close>.
  The analysis fails as a whole exactly when there is no document or the visit of some
  node of the tree throws. The visit of a node throws exactly when the node is a frame, an
  instance or a component without a name, or it is a candidate with a name and its type
  resolution or its property extraction reads the name of a child without one:
  \<^item> the type resolution, when neither the component id nor a name rule matches and the
    node is not button-like, reads the text children up to the first label-like one and
    the frame children up to the first input area;
  \<^item> a Button reads its children that are not vectors, up to the first icon;
  \<^item> the text extraction (label, placeholder and, when no placeholder is found, hint of an
    Input; title, subtitle and content of a Card; label of a DatePicker or a Select) reads
    the text children up to the first whose name contains the role;
  \<^item> an Input whose name does not contain \<open>required\<close> reads its children that are not
    text with an asterisk, up to the first required mark;
  \<^item> a Card reads its frame and group children up to the first actions frame and, when
    there is none, its instance children without a button id, up to the first button;
  \<^item> a Select reads all its children;
  \<^item> any other type reads no child.
  So a failure is always at a frame, an instance or a component that lacks a name or has
  a child that lacks one; a node without a kind never fails by itself, and a tree in which
  every node has a name is analysed.
\<close>

theorem analysis_failure_conditions:
  "((analyzeFigmaComponents d = Inl FailedToAnalyze) =
      (document d = None \<or>
       (\<exists>whole. document d = Some whole \<and> list_ex visitFails (nodesOf whole)))) \<and>
   (visitFails m =
      ((needsName m \<and> \<not> named m) \<or>
       (isComponentCandidate m = Some True \<and> named m \<and>
        (detectComponentType m = None \<or>
         (\<exists>t. detectComponentType m = Some t \<and> extractComponentProperties m t = None))))) \<and>
   (visitFails m \<longrightarrow> needsName m \<and> (\<not> named m \<or> \<not> list_all named (kidsOf m))) \<and>
   ((detectComponentType m = None) =
      (\<not> named m \<or>
       (typeOfComponentId m = None \<and> (\<exists>nl. nameLower m = Some nl \<and> nameRule nl = None) \<and>
        hasButtonLikeStructure m = Some False \<and>
        (readsUnnamed isText labelLike (kidsOf m) \<or>
         readsUnnamed (\<lambda>c. kind c = Some ''FRAME'') inputArea (kidsOf m))))) \<and>
   (named m \<longrightarrow>
      ((extractComponentProperties m ''Button'' = None) =
         readsUnnamed (\<lambda>c. kind c \<noteq> Some ''VECTOR'') iconLike (kidsOf m)) \<and>
      ((extractComponentProperties m ''Input'' = None) =
         (readsUnnamed isText (textFor ''label'') (kidsOf m) \<or>
          readsUnnamed isText (textFor ''placeholder'') (kidsOf m) \<or>
          ((\<exists>v. extractTextContent m ''placeholder'' = Some v \<and> \<not> truthy v) \<and>
           readsUnnamed isText (textFor ''hint'') (kidsOf m)) \<or>
          (\<not> nameHas ''required'' m \<and>
           readsUnnamed (\<lambda>c. \<not> starText c) requiredMark (kidsOf m)))) \<and>
      ((extractComponentProperties m ''DatePicker'' = None) =
         readsUnnamed isText (textFor ''label'') (kidsOf m)) \<and>
      ((extractComponentProperties m ''Select'' = None) = (\<not> list_all named (kidsOf m)))) \<and>
   ((extractComponentProperties m ''Card'' = None) =
      (readsUnnamed isText (textFor ''title'') (kidsOf m) \<or>
       readsUnnamed isText (textFor ''subtitle'') (kidsOf m) \<or>
       readsUnnamed isText (textFor ''content'') (kidsOf m) \<or>
       readsUnnamed isFrameOrGroup actionsFrame (kidsOf m) \<or>
       (\<not> list_ex actionsFrame (kidsOf m) \<and>
        readsUnnamed (\<lambda>c. kind c = Some ''INSTANCE'' \<and> \<not> buttonIdInstance c) buttonInstance
          (kidsOf m)))) \<and>
   (ty \<notin> set [''Button'', ''Input'', ''Card'', ''DatePicker'', ''Select''] \<longrightarrow>
      extractComponentProperties m ty = Some []) \<and>
   (document d = Some tree \<and> m \<in> set (nodesOf tree) \<and> needsName m \<and> \<not> named m \<longrightarrow>
      analyzeFigmaComponents d = Inl FailedToAnalyze) \<and>
   (document d = None \<longrightarrow> analyzeFigmaComponents d = Inl FailedToAnalyze) \<and>
   (document d = Some tree \<and> (\<forall>k \<in> set (nodesOf tree). named k) \<longrightarrow>
      (\<exists>r. analyzeFigmaComponents d = Inr r))"
proof (intro conjI)
  show "(analyzeFigmaComponents d = Inl FailedToAnalyze) =
      (document d = None \<or>
       (\<exists>whole. document d = Some whole \<and> list_ex visitFails (nodesOf whole)))"
    by (rule analyze_fails_iff)
  show "visitFails m =
      ((needsName m \<and> \<not> named m) \<or>
       (isComponentCandidate m = Some True \<and> named m \<and>
        (detectComponentType m = None \<or>
         (\<exists>t. detectComponentType m = Some t \<and> extractComponentProperties m t = None))))"
    by (rule visitFails_iff)
  show "visitFails m \<longrightarrow> needsName m \<and> (\<not> named m \<or> \<not> list_all named (kidsOf m))"
    using visitFails_where[of m] by blast
  show "(detectComponentType m = None) =
      (\<not> named m \<or>
       (typeOfComponentId m = None \<and> (\<exists>nl. nameLower m = Some nl \<and> nameRule nl = None) \<and>
        hasButtonLikeStructure m = Some False \<and>
        (readsUnnamed isText labelLike (kidsOf m) \<or>
         readsUnnamed (\<lambda>c. kind c = Some ''FRAME'') inputArea (kidsOf m))))"
    by (rule detectComponentType_None)
  show "named m \<longrightarrow>
      ((extractComponentProperties m ''Button'' = None) =
         readsUnnamed (\<lambda>c. kind c \<noteq> Some ''VECTOR'') iconLike (kidsOf m)) \<and>
      ((extractComponentProperties m ''Input'' = None) =
         (readsUnnamed isText (textFor ''label'') (kidsOf m) \<or>
          readsUnnamed isText (textFor ''placeholder'') (kidsOf m) \<or>
          ((\<exists>v. extractTextContent m ''placeholder'' = Some v \<and> \<not> truthy v) \<and>
           readsUnnamed isText (textFor ''hint'') (kidsOf m)) \<or>
          (\<not> nameHas ''required'' m \<and>
           readsUnnamed (\<lambda>c. \<not> starText c) requiredMark (kidsOf m)))) \<and>
      ((extractComponentProperties m ''DatePicker'' = None) =
         readsUnnamed isText (textFor ''label'') (kidsOf m)) \<and>
      ((extractComponentProperties m ''Select'' = None) = (\<not> list_all named (kidsOf m)))"
    using props_Button_None[of m] props_Input_None[of m] props_DatePicker_None[of m]
      props_Select_None[of m] by blast
  show "(extractComponentProperties m ''Card'' = None) =
      (readsUnnamed isText (textFor ''title'') (kidsOf m) \<or>
       readsUnnamed isText (textFor ''subtitle'') (kidsOf m) \<or>
       readsUnnamed isText (textFor ''content'') (kidsOf m) \<or>
       readsUnnamed isFrameOrGroup actionsFrame (kidsOf m) \<or>
       (\<not> list_ex actionsFrame (kidsOf m) \<and>
        readsUnnamed (\<lambda>c. kind c = Some ''INSTANCE'' \<and> \<not> buttonIdInstance c) buttonInstance
          (kidsOf m)))"
    by (rule props_Card_None)
  show "ty \<notin> set [''Button'', ''Input'', ''Card'', ''DatePicker'', ''Select''] \<longrightarrow>
      extractComponentProperties m ty = Some []"
    using props_other[of ty m] by blast
  show "document d = Some tree \<and> m \<in> set (nodesOf tree) \<and> needsName m \<and> \<not> named m \<longrightarrow>
      analyzeFigmaComponents d = Inl FailedToAnalyze"
  proof
    assume a: "document d = Some tree \<and> m \<in> set (nodesOf tree) \<and> needsName m \<and> \<not> named m"
    have "traverseFigmaNodes tree [] 0 = None"
    proof (rule ccontr)
      assume "traverseFigmaNodes tree [] 0 \<noteq> None"
      then obtain cs where "traverseFigmaNodes tree [] 0 = Some cs" by blast
      from traverse_Some_named(1)[OF this] a show False by blast
    qed
    with a show "analyzeFigmaComponents d = Inl FailedToAnalyze"
      by (simp add: analyzeFigmaComponents_def)
  qed
  show "document d = None \<longrightarrow> analyzeFigmaComponents d = Inl FailedToAnalyze"
    by (simp add: analyzeFigmaComponents_def)
  show "document d = Some tree \<and> (\<forall>k \<in> set (nodesOf tree). named k) \<longrightarrow>
      (\<exists>r. analyzeFigmaComponents d = Inr r)"
  proof
    assume a: "document d = Some tree \<and> (\<forall>k \<in> set (nodesOf tree). named k)"
    then have "traverseFigmaNodes tree [] 0 \<noteq> None" by (intro traverse_total(1)) simp
    then obtain cs where "traverseFigmaNodes tree [] 0 = Some cs" by blast
    with a show "\<exists>r. analyzeFigmaComponents d = Inr r"
      by (simp add: analyzeFigmaComponents_def)
  qed
qed

lemma self_in_nodesOf: "n \<in> set (nodesOf n)"
  by (subst nodesOf_unfold) simp

theorem analysis_failure_conditions_witness:
  "analyzeFigmaComponents (fileOf (pageWith [namelessInstance])) = Inl FailedToAnalyze \<and>
   analyzeFigmaComponents \<lparr>fileId = None, fileName = None, document = None\<rparr>
     = Inl FailedToAnalyze \<and>
   analyzeFigmaComponents (fileOf inputWithNamelessText) = Inl FailedToAnalyze \<and>
   extractComponentProperties inputWithNamelessText ''Input'' = None \<and>
   needsName inputWithNamelessText \<and> \<not> list_all named (kidsOf inputWithNamelessText) \<and>
   analyzeFigmaComponents (fileOf buttonWithBareChild) = Inl FailedToAnalyze \<and>
   extractComponentProperties buttonWithBareChild ''Button'' = None \<and>
   analyzeFigmaComponents (fileOf selectWithNamelessGroup) = Inl FailedToAnalyze \<and>
   extractComponentProperties selectWithNamelessGroup ''Select'' = None \<and>
   extractComponentProperties buttonWithBareChild ''Custom'' = Some [] \<and>
   (\<exists>r. analyzeFigmaComponents (fileOf buttonWithIconThenBare) = Inr r) \<and>
   (\<exists>r. analyzeFigmaComponents (fileOf cardComponent) = Inr r)"
proof -
  note T = analysis_failure_conditions
  note fails = T[THEN conjunct1]
  note visit = T[THEN conjunct2, THEN conjunct1]
  note place = T[THEN conjunct2, THEN conjunct2, THEN conjunct1, rule_format]
  note props = T[THEN conjunct2, THEN conjunct2, THEN conjunct2, THEN conjunct2, THEN conjunct1,
      rule_format]
  note other = T[THEN conjunct2, THEN conjunct2, THEN conjunct2, THEN conjunct2, THEN conjunct2,
      THEN conjunct2, THEN conjunct1, rule_format]
  note own = T[THEN conjunct2, THEN conjunct2, THEN conjunct2, THEN conjunct2, THEN conjunct2,
      THEN conjunct2, THEN conjunct2, THEN conjunct1, rule_format]
  note nodoc = T[THEN conjunct2, THEN conjunct2, THEN conjunct2, THEN conjunct2, THEN conjunct2,
      THEN conjunct2, THEN conjunct2, THEN conjunct2, THEN conjunct1, rule_format]
  note total = T[THEN conjunct2, THEN conjunct2, THEN conjunct2, THEN conjunct2, THEN conjunct2,
      THEN conjunct2, THEN conjunct2, THEN conjunct2, THEN conjunct2, rule_format]
  have 1: "document (fileOf (pageWith [namelessInstance])) = Some (pageWith [namelessInstance]) \<and>
    namelessInstance \<in> set (nodesOf (pageWith [namelessInstance])) \<and>
    needsName namelessInstance \<and> \<not> named namelessInstance"
    by (simp add: fileOf_def pageWith_def namelessInstance_def needsName_def named_def
        emptyAttrs_def)
  have a: "analyzeFigmaComponents (fileOf (pageWith [namelessInstance])) = Inl FailedToAnalyze"
    by (rule own[OF 1])
  have b: "analyzeFigmaComponents \<lparr>fileId = None, fileName = None, document = None\<rparr>
     = Inl FailedToAnalyze" by (rule nodoc) simp
  have doc: "document (fileOf n) = Some n" for n
    by (simp add: fileOf_def)
  have failsAt: "analyzeFigmaComponents (fileOf n) = Inl FailedToAnalyze" if "visitFails n" for n
  proof -
    from that self_in_nodesOf[of n] have "list_ex visitFails (nodesOf n)"
      unfolding list_ex_iff by blast
    with doc[of n] show ?thesis unfolding fails[of "fileOf n"] by blast
  qed
  have ni: "named inputWithNamelessText" "isComponentCandidate inputWithNamelessText = Some True"
    "detectComponentType inputWithNamelessText = Some ''Input''"
    "readsUnnamed isText (textFor ''label'') (kidsOf inputWithNamelessText)"
    by code_simp+
  have pi: "extractComponentProperties inputWithNamelessText ''Input'' = None"
    using props[OF ni(1)] ni(4) by simp
  have vi: "visitFails inputWithNamelessText"
    unfolding visit[of inputWithNamelessText] using ni(1,2,3) pi by simp
  from place[OF vi] ni(1)
  have wi: "needsName inputWithNamelessText \<and> \<not> list_all named (kidsOf inputWithNamelessText)"
    by simp
  note c = failsAt[OF vi]
  have nb: "named buttonWithBareChild" "isComponentCandidate buttonWithBareChild = Some True"
    "detectComponentType buttonWithBareChild = Some ''Button''"
    "readsUnnamed (\<lambda>c. kind c \<noteq> Some ''VECTOR'') iconLike (kidsOf buttonWithBareChild)"
    by code_simp+
  have pb: "extractComponentProperties buttonWithBareChild ''Button'' = None"
    using props[OF nb(1)] nb(4) by simp
  have vb: "visitFails buttonWithBareChild"
    unfolding visit[of buttonWithBareChild] using nb(1,2,3) pb by simp
  note e = failsAt[OF vb]
  have ns: "named selectWithNamelessGroup" "isComponentCandidate selectWithNamelessGroup = Some True"
    "detectComponentType selectWithNamelessGroup = Some ''Select''"
    "\<not> list_all named (kidsOf selectWithNamelessGroup)"
    by code_simp+
  have ps: "extractComponentProperties selectWithNamelessGroup ''Select'' = None"
    using props[OF ns(1)] ns(4) by simp
  have vs: "visitFails selectWithNamelessGroup"
    unfolding visit[of selectWithNamelessGroup] using ns(1,2,3) ps by simp
  note f = failsAt[OF vs]
  have g: "extractComponentProperties buttonWithBareChild ''Custom'' = Some []"
    by (rule other) simp
  have "\<not> list_ex visitFails (nodesOf buttonWithIconThenBare)" by code_simp
  then have "analyzeFigmaComponents (fileOf buttonWithIconThenBare) \<noteq> Inl FailedToAnalyze"
    unfolding fails[of "fileOf buttonWithIconThenBare"] by (simp add: doc)
  then have h: "\<exists>r. analyzeFigmaComponents (fileOf buttonWithIconThenBare) = Inr r"
    by (cases "analyzeFigmaComponents (fileOf buttonWithIconThenBare)")
       (auto intro: error.exhaust)
  have "list_all named (nodesOf cardComponent)" by code_simp
  then have "document (fileOf cardComponent) = Some cardComponent \<and>
      (\<forall>k \<in> set (nodesOf cardComponent). named k)" by (simp add: list_all_iff doc)
  then have i: "\<exists>r. analyzeFigmaComponents (fileOf cardComponent) = Inr r" by (rule total)
  from a b c pi wi e pb f ps g h i show ?thesis by simp
qed

text \<open>
  The claim C8 as stated fails: a page with a node that lacks name and kind, a text node
  that lacks a name and a node that lacks a kind is analysed without failure, into an
  empty list of components. The root of the document that \<^verbatim>\<open>importFigmaFile\<close>
  returns lacks name and kind itself, and that document is analysed.
\<close>

theorem malformed_nodes_accepted:
  "analyzeFigmaComponents (fileOf (pageWith [bareNode, namelessText, kindlessButton])) =
     Inr \<lparr>resFileKey = ''figma-file-1'', resFileName = ''Design System'', components = [],
          resStats = \<lparr>totalComponents = 0, frames = 0, supported = 0, partial = 0,
                      unsupported = 0\<rparr>\<rparr> \<and>
   nodeName (attrs bareNode) = None \<and> kind bareNode = None \<and>
   nodeName (attrs namelessText) = None \<and> kind kindlessButton = None \<and>
   nodeName (attrs mockDocument) = None \<and> kind mockDocument = None \<and>
   isl (analyzeFigmaComponents (fileOf mockDocument)) = False"
  by code_simp

end
